theory Spec2Isabelle
  imports Complex_Main
begin

section \<open>Conventions of the embedding\<close>

text \<open>
  The C++ sources are embedded function by function. A \<^verbatim>\<open>double\<close> is a \<^typ>\<open>real\<close>
  (rounding is not modelled), except in the convergence check of the multi-segment
  well, whose branches test \<^verbatim>\<open>std::isnan\<close> and \<^verbatim>\<open>std::isinf\<close> and which therefore uses a
  type with the special values. Exceptions, failed assertions and reads outside an array
  are values of type \<open>error\<close>; a function that can fail returns \<open>error + 'a\<close>.
  An \<^verbatim>\<open>assert\<close> is modelled as compiled in. Member variables are written without the trailing
  underscore of the sources.
\<close>

datatype error =
    OutOfRange            \<comment> \<open>\<^verbatim>\<open>std::out_of_range\<close> thrown by \<^verbatim>\<open>vector::at\<close>\<close>
  | AssertionFailed       \<comment> \<open>a failed \<^verbatim>\<open>assert\<close>\<close>
  | RuntimeError          \<comment> \<open>\<^verbatim>\<open>OPM_THROW(std::runtime_error, ...)\<close>\<close>
  | InvalidArgument       \<comment> \<open>\<^verbatim>\<open>OPM_THROW(std::invalid_argument, ...)\<close>\<close>
  | UndefinedBehaviour    \<comment> \<open>unchecked \<^verbatim>\<open>operator[]\<close> outside the array, null dereference\<close>

definition ebind :: "error + 'a \<Rightarrow> ('a \<Rightarrow> error + 'b) \<Rightarrow> error + 'b" where
  "ebind m f = (case m of Inl e \<Rightarrow> Inl e | Inr x \<Rightarrow> f x)"

text \<open>\<^verbatim>\<open>std::vector::at\<close>: a checked read.\<close>

definition vec_at :: "'a list \<Rightarrow> nat \<Rightarrow> error + 'a" where
  "vec_at xs i = (if i < length xs then Inr (xs ! i) else Inl OutOfRange)"

text \<open>Unchecked \<^verbatim>\<open>operator[]\<close> with a signed index: outside the array the behaviour is
  undefined, which the model reports.\<close>

definition vec_idx :: "'a list \<Rightarrow> int \<Rightarrow> error + 'a" where
  "vec_idx xs i = (if 0 \<le> i \<and> i < int (length xs) then Inr (xs ! nat i) else Inl UndefinedBehaviour)"

text \<open>Unchecked assignment \<^verbatim>\<open>v[i] = x\<close> with a signed index.\<close>

definition vec_set :: "'a list \<Rightarrow> int \<Rightarrow> 'a \<Rightarrow> error + 'a list" where
  "vec_set xs i x = (if 0 \<le> i \<and> i < int (length xs) then Inr (xs[nat i := x]) else Inl UndefinedBehaviour)"

section \<open>Automatic-differentiation scalars\<close>

text \<open>
  Modelled from the spec: the class \<^verbatim>\<open>DenseAd::Evaluation\<close> is not among the sources.
  The spec describes it as a pair of a value and the partial derivatives with respect to
  the primary variables, with arithmetic that propagates derivatives by the chain rule.
  Only the operators the sources use are given.
\<close>

record Eval =
  val :: real
  derivs :: "real list"

definition Eval_add :: "Eval \<Rightarrow> Eval \<Rightarrow> Eval" where
  "Eval_add x y = \<lparr>val = val x + val y, derivs = map2 (+) (derivs x) (derivs y)\<rparr>"

definition Eval_sub :: "Eval \<Rightarrow> Eval \<Rightarrow> Eval" where
  "Eval_sub x y = \<lparr>val = val x - val y, derivs = map2 (-) (derivs x) (derivs y)\<rparr>"

definition Eval_sub_scalar :: "Eval \<Rightarrow> real \<Rightarrow> Eval" where
  "Eval_sub_scalar x c = \<lparr>val = val x - c, derivs = derivs x\<rparr>"

definition scalar_sub_Eval :: "real \<Rightarrow> Eval \<Rightarrow> Eval" where
  "scalar_sub_Eval c x = \<lparr>val = c - val x, derivs = map uminus (derivs x)\<rparr>"

definition scalar_mul_Eval :: "real \<Rightarrow> Eval \<Rightarrow> Eval" where
  "scalar_mul_Eval c x = \<lparr>val = c * val x, derivs = map (\<lambda>d. c * d) (derivs x)\<rparr>"

definition Eval_mul_scalar :: "Eval \<Rightarrow> real \<Rightarrow> Eval" where
  "Eval_mul_scalar x c = \<lparr>val = val x * c, derivs = map (\<lambda>d. d * c) (derivs x)\<rparr>"

section \<open>The Carter-Tracy aquifer\<close>

record SimulatorTimer =
  currentStepLength :: real
  simulationTimeElapsed :: real

record AquiferCarterTracy =
  cell_idx :: "nat list"
  faceArea_connected :: "real list"
  cell_depth :: "real list"
  pressure_previous :: "Eval list"
  pressure_current :: "Eval list"
  Qai :: "Eval list"
  rhow :: "Eval list"
  alphai :: "real list"
  mu_w :: real
  phi_aq :: real
  d0 :: real
  C_t :: real
  r_o :: real
  k_a :: real
  c1 :: real
  h :: real
  theta :: real
  c2 :: real
  aqutab_td :: "real list"
  aqutab_pi :: "real list"
  dt :: real
  pa0 :: real
  gravity :: real
  p0_defaulted :: bool
  W_flux :: Eval
  coeff :: "real list"

subsection \<open>\<^verbatim>\<open>after_time_step\<close>\<close>

definition after_time_step :: "SimulatorTimer \<Rightarrow> AquiferCarterTracy \<Rightarrow> AquiferCarterTracy" where
  "after_time_step timer aq =
     aq\<lparr>W_flux := foldl (\<lambda>W q. Eval_add W (Eval_mul_scalar q (currentStepLength timer)))
                        (W_flux aq) (Qai aq)\<rparr>"


subsection \<open>Constants and the inflow rate\<close>

definition area_fraction :: "AquiferCarterTracy \<Rightarrow> nat \<Rightarrow> error + real" where
  "area_fraction aq i = vec_at (alphai aq) i"

definition time_constant :: "AquiferCarterTracy \<Rightarrow> real" where
  "time_constant aq = mu_w aq * phi_aq aq * C_t aq * r_o aq * r_o aq / (k_a aq * c1 aq)"

definition aquifer_influx_constant :: "AquiferCarterTracy \<Rightarrow> real" where
  "aquifer_influx_constant aq = c2 aq * h aq * theta aq * phi_aq aq * C_t aq * r_o aq * r_o aq"

definition dpai :: "AquiferCarterTracy \<Rightarrow> nat \<Rightarrow> error + real" where
  "dpai aq i =
     ebind (vec_at (rhow aq) i) (\<lambda>rho.
     ebind (vec_at (cell_depth aq) i) (\<lambda>depth.
     ebind (vec_at (pressure_previous aq) i) (\<lambda>pprev.
       Inr (pa0 aq + val rho * gravity aq * (depth - d0 aq) - val pprev))))"

text \<open>The two reference parameters \<^verbatim>\<open>a\<close> and \<^verbatim>\<open>b\<close> are returned as a pair.\<close>

definition calculate_a_b_constants ::
    "AquiferCarterTracy \<Rightarrow> nat \<Rightarrow> SimulatorTimer \<Rightarrow> error + (real \<times> real)" where
  "calculate_a_b_constants aq i timer =
     (let beta = aquifer_influx_constant aq;
          Tc = time_constant aq;
          td_plus_dt = (currentStepLength timer + simulationTimeElapsed timer) / Tc;
          td = simulationTimeElapsed timer / Tc
      in ebind (vec_at (coeff aq) 1) (\<lambda>PItdprime.
         ebind (vec_at (coeff aq) 0) (\<lambda>coeff0.
         ebind (vec_at (coeff aq) 1) (\<lambda>coeff1.
           let PItd = coeff0 + coeff1 * td_plus_dt
           in ebind (dpai aq i) (\<lambda>dp.
                Inr (1 / Tc * ((beta * dp) - (val (W_flux aq) * PItdprime)) / (PItd - td * PItdprime),
                     beta / (Tc * (PItd - td * PItdprime))))))))"

definition calculate_inflow_rate ::
    "nat \<Rightarrow> SimulatorTimer \<Rightarrow> AquiferCarterTracy \<Rightarrow> error + AquiferCarterTracy" where
  "calculate_inflow_rate i timer aq =
     ebind (calculate_a_b_constants aq i timer) (\<lambda>(a, b).
     ebind (area_fraction aq i) (\<lambda>alpha.
     ebind (vec_at (pressure_current aq) i) (\<lambda>pcurr.
     ebind (vec_at (pressure_previous aq) i) (\<lambda>pprev.
       if i < length (Qai aq)
       then Inr (aq\<lparr>Qai := (Qai aq)[i := scalar_mul_Eval alpha
                   (scalar_sub_Eval a (scalar_mul_Eval b (Eval_sub_scalar pcurr (val pprev))))]\<rparr>)
       else Inl OutOfRange))))"

text \<open>The coefficients as the spec words them (section 4.3), for comparison with the code.\<close>

definition PItd_spec :: "real \<Rightarrow> real \<Rightarrow> real \<Rightarrow> real \<Rightarrow> real \<Rightarrow> real" where
  "PItd_spec coeff0 coeff1 t step Tc = coeff0 + coeff1 * ((t + step) / Tc)"

definition a_spec :: "real \<Rightarrow> real \<Rightarrow> real \<Rightarrow> real \<Rightarrow> real \<Rightarrow> real \<Rightarrow> real \<Rightarrow> real" where
  "a_spec Tc beta dp W PItd PItdprime tD = (1 / Tc) * (beta * dp - W * PItdprime) / (PItd - tD * PItdprime)"

definition b_spec :: "real \<Rightarrow> real \<Rightarrow> real \<Rightarrow> real \<Rightarrow> real \<Rightarrow> real" where
  "b_spec Tc beta PItd PItdprime tD = beta / (Tc * (PItd - tD * PItdprime))"

subsection \<open>\<^verbatim>\<open>polynomial_fit\<close>\<close>

text \<open>
  \<^verbatim>\<open>Eigen::MatrixXd::householderQr().solve\<close> belongs to a library outside the repository; it
  is the parameter \<open>householderQr_solve\<close>, from the matrix (a list of rows) and the
  right-hand side to the solution vector. The order is a \<^typ>\<open>nat\<close>.
\<close>

definition polynomial_fit ::
    "(real list list \<Rightarrow> real list \<Rightarrow> real list) \<Rightarrow> real list \<Rightarrow> real list \<Rightarrow> nat \<Rightarrow> bool
       \<Rightarrow> error + real list" where
  "polynomial_fit householderQr_solve X y order bias =
     (let colNum = (if bias then order + 1 else order)
      in if length X \<noteq> length y then Inl AssertionFailed
         else if \<not> length X \<ge> colNum then Inl AssertionFailed
         else let A = map (\<lambda>i. map (\<lambda>j. if bias then (X ! i) ^ j else (X ! i) ^ (j + 1)) [0..<colNum])
                          [0..<length X];
                  result = householderQr_solve A y
              in Inr (map (\<lambda>i. result ! i) [0..<colNum]))"

text \<open>The Vandermonde matrix of the samples, as the spec names it: row \<open>i\<close> holds the
  powers \<open>0..order\<close> of sample \<open>i\<close>.\<close>

definition vandermonde :: "real list \<Rightarrow> nat \<Rightarrow> real list list" where
  "vandermonde X order = map (\<lambda>x. map (\<lambda>j. x ^ j) [0..<order + 1]) X"

subsection \<open>\<^verbatim>\<open>initialize_connections\<close>\<close>

datatype FaceDir = XMinus | XPlus | YMinus | YPlus | ZMinus | ZPlus

text \<open>The grid facade: the faces of a cell, each with its index and its tag, the area
  of a face, and the depth of a cell centre (\<^verbatim>\<open>getCellCenter(c)[2]\<close>).\<close>

record Grid =
  cell2Faces :: "nat \<Rightarrow> (nat \<times> int) list"
  faceArea :: "nat \<Rightarrow> real"
  cellCenterDepth :: "nat \<Rightarrow> real"

record AquanconOutput =
  global_index :: "nat list"
  influx_coeff :: "real list"
  influx_multiplier :: "real list"
  reservoir_face_dir :: "FaceDir list"

text \<open>\<^verbatim>\<open>std::vector::resize(n, v)\<close>.\<close>

definition resize :: "nat \<Rightarrow> 'a \<Rightarrow> 'a list \<Rightarrow> 'a list" where
  "resize n v xs = take n xs @ replicate (n - length xs) v"

text \<open>The translation of the face tag. The variable \<^verbatim>\<open>faceDirection\<close> is declared outside
  both loops and keeps its value when the tag is none of \<open>0..5\<close>.\<close>

definition faceTag_direction :: "int \<Rightarrow> FaceDir \<Rightarrow> FaceDir" where
  "faceTag_direction faceTag faceDirection =
     (if faceTag = 0 then XMinus
      else if faceTag = 1 then XPlus
      else if faceTag = 2 then YMinus
      else if faceTag = 3 then YPlus
      else if faceTag = 4 then ZMinus
      else if faceTag = 5 then ZPlus
      else faceDirection)"

text \<open>The loop over the faces of one cell; its state is \<^verbatim>\<open>faceDirection\<close>,
  \<^verbatim>\<open>faceArea_connected_\<close> and \<^verbatim>\<open>denom_face_areas\<close>.\<close>

fun faces_loop ::
    "Grid \<Rightarrow> AquanconOutput \<Rightarrow> nat \<Rightarrow> (nat \<times> int) list \<Rightarrow> FaceDir \<times> real list \<times> real
       \<Rightarrow> error + (FaceDir \<times> real list \<times> real)" where
  "faces_loop ugrid connection i [] st = Inr st"
| "faces_loop ugrid connection i ((faceIdx, faceTag) # faces) (faceDirection, fAc, denom_face_areas) =
     (let faceDirection' = faceTag_direction faceTag faceDirection
      in ebind (vec_at (reservoir_face_dir connection) i) (\<lambda>dir.
           if faceDirection' = dir
           then (if i < length fAc
                 then (let fAc' = fAc[i := faceArea ugrid faceIdx]
                       in faces_loop ugrid connection i faces
                            (faceDirection', fAc', denom_face_areas + fAc' ! i))
                 else Inl OutOfRange)
           else faces_loop ugrid connection i faces (faceDirection', fAc, denom_face_areas)))"

text \<open>The loop over the connections; \<open>is\<close> are the indices still to visit.\<close>

fun cells_loop ::
    "Grid \<Rightarrow> AquanconOutput \<Rightarrow> nat list \<Rightarrow> nat list \<Rightarrow> (FaceDir \<times> real list \<times> real) \<times> real list
       \<Rightarrow> error + ((FaceDir \<times> real list \<times> real) \<times> real list)" where
  "cells_loop ugrid connection cells [] st = Inr st"
| "cells_loop ugrid connection cells (i # is) (fst3, depths) =
     ebind (vec_at cells i) (\<lambda>cell.
     ebind (faces_loop ugrid connection i (cell2Faces ugrid cell) fst3) (\<lambda>fst3'.
       if i < length depths
       then cells_loop ugrid connection cells is (fst3', depths[i := cellCenterDepth ugrid cell])
       else Inl OutOfRange))"

fun alphai_loop :: "real list \<Rightarrow> real \<Rightarrow> nat list \<Rightarrow> real list \<Rightarrow> error + real list" where
  "alphai_loop fAc denom_face_areas [] al = Inr al"
| "alphai_loop fAc denom_face_areas (i # is) al =
     ebind (vec_at fAc i) (\<lambda>area.
       if i < length al
       then alphai_loop fAc denom_face_areas is (al[i := area / denom_face_areas])
       else Inl OutOfRange)"

text \<open>The indeterminate initial value of \<^verbatim>\<open>faceDirection\<close> is the parameter
  \<open>faceDirection0\<close>.\<close>

definition initialize_connections ::
    "Grid \<Rightarrow> FaceDir \<Rightarrow> AquanconOutput \<Rightarrow> AquiferCarterTracy \<Rightarrow> error + AquiferCarterTracy" where
  "initialize_connections ugrid faceDirection0 connection aq =
     (let cells = global_index connection;
          n = length cells
      in if n \<noteq> length (influx_coeff connection) then Inl AssertionFailed
         else if length (influx_coeff connection) \<noteq> length (influx_multiplier connection)
           then Inl AssertionFailed
         else if length (influx_multiplier connection) \<noteq> length (reservoir_face_dir connection)
           then Inl AssertionFailed
         else
           let depths0 = resize n (d0 aq) (cell_depth aq);
               al0 = resize n 1 (alphai aq);
               fAc0 = resize n 0 (faceArea_connected aq)
           in ebind (cells_loop ugrid connection cells [0..<n] ((faceDirection0, fAc0, 0), depths0))
                (\<lambda>((faceDirection, fAc, denom_face_areas), depths).
              ebind (alphai_loop fAc denom_face_areas [0..<n] al0) (\<lambda>al.
                Inr (aq\<lparr>cell_idx := cells, cell_depth := depths, alphai := al,
                        faceArea_connected := fAc\<rparr>))))"

text \<open>The areas of the faces of a cell that lie in a direction, in the order of the faces,
  for tags among \<open>0..5\<close>.\<close>

definition valid_tags :: "(nat \<times> int) list \<Rightarrow> bool" where
  "valid_tags faces = list_all (\<lambda>(faceIdx, faceTag). 0 \<le> faceTag \<and> faceTag \<le> 5) faces"

definition matching_areas :: "Grid \<Rightarrow> FaceDir \<Rightarrow> (nat \<times> int) list \<Rightarrow> real list" where
  "matching_areas ugrid dir faces =
     map (\<lambda>(faceIdx, faceTag). faceArea ugrid faceIdx)
       (filter (\<lambda>(faceIdx, faceTag). faceTag_direction faceTag XMinus = dir) faces)"

text \<open>The areas of the faces through which connection \<open>i\<close> reaches its cell.\<close>

definition connection_areas :: "Grid \<Rightarrow> AquanconOutput \<Rightarrow> nat \<Rightarrow> real list" where
  "connection_areas ugrid connection i =
     matching_areas ugrid (reservoir_face_dir connection ! i)
       (cell2Faces ugrid (global_index connection ! i))"

text \<open>The sizes that \<^verbatim>\<open>init_quantities\<close> establishes: every per-connection vector has
  one entry for each connection, and the fit of order 1 with bias has two coefficients.\<close>

definition connections_sized :: "AquiferCarterTracy \<Rightarrow> bool" where
  "connections_sized aq \<longleftrightarrow>
     length (cell_depth aq) = length (cell_idx aq) \<and>
     length (alphai aq) = length (cell_idx aq) \<and>
     length (rhow aq) = length (cell_idx aq) \<and>
     length (pressure_previous aq) = length (cell_idx aq) \<and>
     length (pressure_current aq) = length (cell_idx aq) \<and>
     length (Qai aq) = length (cell_idx aq) \<and>
     length (coeff aq) = 2"

subsection \<open>Example inputs\<close>

definition aq0 :: AquiferCarterTracy where
  "aq0 = \<lparr>cell_idx = [0, 1], faceArea_connected = [1, 1], cell_depth = [100, 100],
           pressure_previous = [\<lparr>val = 9, derivs = [1, 0]\<rparr>, \<lparr>val = 9, derivs = [1, 0]\<rparr>],
           pressure_current = [\<lparr>val = 11, derivs = [1, 0]\<rparr>, \<lparr>val = 9, derivs = [1, 0]\<rparr>],
           Qai = [\<lparr>val = 2, derivs = [1, 0]\<rparr>, \<lparr>val = 3, derivs = [0, 1]\<rparr>],
           rhow = [\<lparr>val = 1000, derivs = [0, 0]\<rparr>, \<lparr>val = 1000, derivs = [0, 0]\<rparr>],
           alphai = [1 / 2, 1 / 2],
           mu_w = 1, phi_aq = 1, d0 = 100, C_t = 1, r_o = 10, k_a = 1, c1 = 1, h = 1, theta = 1,
           c2 = 1 / 100, aqutab_td = [0, 1], aqutab_pi = [0, 1 / 2], dt = 10, pa0 = 10,
           gravity = 10, p0_defaulted = False, W_flux = \<lparr>val = 1, derivs = [0, 0]\<rparr>,
           coeff = [0, 1 / 2]\<rparr>"

definition timer0 :: SimulatorTimer where
  "timer0 = \<lparr>currentStepLength = 10, simulationTimeElapsed = 0\<rparr>"

text \<open>A grid with one cell that has two faces on its \<open>X+\<close> side (as next to a fault), of
  areas 1 and 2, and a connection of that cell through its \<open>X+\<close> side.\<close>

definition fault_grid :: Grid where
  "fault_grid = \<lparr>cell2Faces = (\<lambda>c. if c = 0 then [(0, 1), (1, 1)] else []),
                  faceArea = (\<lambda>f. if f = 0 then 1 else 2),
                  cellCenterDepth = (\<lambda>c. 100)\<rparr>"

definition fault_connection :: AquanconOutput where
  "fault_connection = \<lparr>global_index = [0], influx_coeff = [1], influx_multiplier = [1],
                        reservoir_face_dir = [XPlus]\<rparr>"


text \<open>A solver for two samples and a line: the exact solution of the 2 x 2 system.\<close>

definition solve_two_samples :: "real list list \<Rightarrow> real list \<Rightarrow> real list" where
  "solve_two_samples A y =
     (let slope = (y ! 1 - y ! 0) / (A ! 1 ! 1 - A ! 0 ! 1) in [y ! 0 - slope * (A ! 0 ! 1), slope])"

section \<open>The multi-segment well\<close>

subsection \<open>Doubles with special values\<close>

text \<open>
  The convergence check distinguishes NaN and the infinities. Finite values are reals:
  rounding and overflow of finite results are not modelled. The operations are those of
  IEEE 754 on the special values.
\<close>

datatype double = NaN | PInf | MInf | Fin real

definition isnan :: "double \<Rightarrow> bool" where
  "isnan d = (d = NaN)"

definition isinf :: "double \<Rightarrow> bool" where
  "isinf d = (d = PInf \<or> d = MInf)"

fun dabs :: "double \<Rightarrow> double" where
  "dabs NaN = NaN"
| "dabs PInf = PInf"
| "dabs MInf = PInf"
| "dabs (Fin r) = Fin \<bar>r\<bar>"

text \<open>\<open>dgt a b\<close> is \<^verbatim>\<open>a > b\<close>: false as soon as one side is NaN.\<close>

fun dgt :: "double \<Rightarrow> double \<Rightarrow> bool" where
  "dgt NaN b = False"
| "dgt a NaN = False"
| "dgt PInf PInf = False"
| "dgt PInf b = True"
| "dgt MInf b = False"
| "dgt (Fin r) PInf = False"
| "dgt (Fin r) MInf = True"
| "dgt (Fin r) (Fin s) = (r > s)"

definition dsign_mul :: "bool \<Rightarrow> double" where
  "dsign_mul positive = (if positive then PInf else MInf)"

fun dmul :: "double \<Rightarrow> double \<Rightarrow> double" where
  "dmul NaN b = NaN"
| "dmul a NaN = NaN"
| "dmul (Fin r) (Fin s) = Fin (r * s)"
| "dmul (Fin r) PInf = (if r = 0 then NaN else dsign_mul (r > 0))"
| "dmul (Fin r) MInf = (if r = 0 then NaN else dsign_mul (r < 0))"
| "dmul PInf (Fin s) = (if s = 0 then NaN else dsign_mul (s > 0))"
| "dmul MInf (Fin s) = (if s = 0 then NaN else dsign_mul (s < 0))"
| "dmul PInf PInf = PInf"
| "dmul PInf MInf = MInf"
| "dmul MInf PInf = MInf"
| "dmul MInf MInf = PInf"

subsection \<open>\<^verbatim>\<open>getWellConvergence\<close>\<close>

datatype Severity = Normal | TooLarge | NotANumber

datatype WellFailureType = MassBalance | Pressure | ControlBHP | ControlTHP | ControlRate

record WellFailure =
  failure_type :: WellFailureType
  severity :: Severity
  failed_phase :: int
  well_name :: string

text \<open>What the check reads of the well: the sizes, the name, and the residual of the
  linear system by segment and equation. \<open>SPres\<close> is the index of the pressure equation.\<close>

record WellResiduals =
  numberOfSegments :: nat
  numWellEq :: nat
  numComponents :: nat
  SPres :: nat
  baseif_name :: string
  residual :: "nat \<Rightarrow> nat \<Rightarrow> double"

record Tolerances =
  max_residual_allowed :: double
  tolerance_wells :: double
  relaxed_inner_tolerance_flow_ms_well :: double
  tolerance_pressure_ms_wells :: double
  relaxed_inner_tolerance_pressure_ms_well :: double
  relax_tolerance :: bool

text \<open>The inner loop over the segments for one equation, from the current maximum.\<close>

fun maximum_residual_loop :: "WellResiduals \<Rightarrow> double list \<Rightarrow> nat \<Rightarrow> nat list \<Rightarrow> double \<Rightarrow> double" where
  "maximum_residual_loop w B_avg eq_idx [] m = m"
| "maximum_residual_loop w B_avg eq_idx (seg # segs) m =
     (if eq_idx < numComponents w
      then (let flux_residual = dmul (B_avg ! eq_idx) (dabs (residual w seg eq_idx))
            in maximum_residual_loop w B_avg eq_idx segs (if dgt flux_residual m then flux_residual else m))
      else if seg > 0
      then (let pressure_residual = dabs (residual w seg eq_idx)
            in maximum_residual_loop w B_avg eq_idx segs
                 (if dgt pressure_residual m then pressure_residual else m))
      else maximum_residual_loop w B_avg eq_idx segs m)"

definition maximum_residual :: "WellResiduals \<Rightarrow> double list \<Rightarrow> nat \<Rightarrow> double" where
  "maximum_residual w B_avg eq_idx =
     maximum_residual_loop w B_avg eq_idx [0..<numberOfSegments w] (Fin 0)"

text \<open>The body of the second loop: the failure, if any, reported for one equation.\<close>

definition well_failure :: "Tolerances \<Rightarrow> WellResiduals \<Rightarrow> nat \<Rightarrow> double \<Rightarrow> WellFailure option" where
  "well_failure tol w eq_idx m =
     (if eq_idx < numComponents w
      then (if isnan m
            then Some \<lparr>failure_type = MassBalance, severity = NotANumber, failed_phase = int eq_idx, well_name = baseif_name w\<rparr>
            else if dgt m (max_residual_allowed tol)
            then Some \<lparr>failure_type = MassBalance, severity = TooLarge, failed_phase = int eq_idx, well_name = baseif_name w\<rparr>
            else if \<not> relax_tolerance tol \<and> dgt m (tolerance_wells tol)
            then Some \<lparr>failure_type = MassBalance, severity = Normal, failed_phase = int eq_idx, well_name = baseif_name w\<rparr>
            else if dgt m (relaxed_inner_tolerance_flow_ms_well tol)
            then Some \<lparr>failure_type = MassBalance, severity = Normal, failed_phase = int eq_idx, well_name = baseif_name w\<rparr>
            else None)
      else (if isnan m
            then Some \<lparr>failure_type = Pressure, severity = NotANumber, failed_phase = - 1, well_name = baseif_name w\<rparr>
            else if isinf m
            then Some \<lparr>failure_type = Pressure, severity = TooLarge, failed_phase = - 1, well_name = baseif_name w\<rparr>
            else if \<not> relax_tolerance tol \<and> dgt m (tolerance_pressure_ms_wells tol)
            then Some \<lparr>failure_type = Pressure, severity = Normal, failed_phase = - 1, well_name = baseif_name w\<rparr>
            else if dgt m (relaxed_inner_tolerance_pressure_ms_well tol)
            then Some \<lparr>failure_type = Pressure, severity = Normal, failed_phase = - 1, well_name = baseif_name w\<rparr>
            else None))"

fun report_loop :: "Tolerances \<Rightarrow> WellResiduals \<Rightarrow> double list \<Rightarrow> nat list \<Rightarrow> WellFailure list \<Rightarrow> WellFailure list" where
  "report_loop tol w B_avg [] report = report"
| "report_loop tol w B_avg (eq_idx # eqs) report =
     report_loop tol w B_avg eqs
       (case well_failure tol w eq_idx (maximum_residual w B_avg eq_idx) of
          None \<Rightarrow> report
        | Some f \<Rightarrow> report @ [f])"

text \<open>\<^verbatim>\<open>WellConvergence::checkConvergenceControlEq\<close> is not among the sources: it is the
  parameter \<open>checkConvergenceControlEq\<close>, from the tolerances, the absolute control
  residual and the report to the report.\<close>

definition getWellConvergence ::
    "(double list \<Rightarrow> double \<Rightarrow> WellFailure list \<Rightarrow> WellFailure list) \<Rightarrow> WellResiduals \<Rightarrow> double list
       \<Rightarrow> Tolerances \<Rightarrow> error + WellFailure list" where
  "getWellConvergence checkConvergenceControlEq w B_avg tol =
     (if length B_avg \<noteq> numComponents w then Inl AssertionFailed
      else Inr (checkConvergenceControlEq
                  [tolerance_pressure_ms_wells tol, tolerance_pressure_ms_wells tol,
                   tolerance_wells tol, tolerance_wells tol, max_residual_allowed tol]
                  (dabs (residual w 0 (SPres w)))
                  (report_loop tol w B_avg [0..<numWellEq w] [])))"

text \<open>The classification as the spec words it (section 4.5), with the test for
  \<open>TooLarge\<close> as a parameter.\<close>

definition severity_spec :: "(double \<Rightarrow> bool) \<Rightarrow> double \<Rightarrow> double \<Rightarrow> bool \<Rightarrow> double \<Rightarrow> Severity option" where
  "severity_spec too_large tolerance relaxed relax m =
     (if isnan m then Some NotANumber
      else if too_large m then Some TooLarge
      else if relax then (if dgt m relaxed then Some Normal else None)
      else (if dgt m tolerance then Some Normal else None))"

text \<open>\<open>dle a b\<close>: both are numbers and \<open>a \<le> b\<close>.\<close>

definition dle :: "double \<Rightarrow> double \<Rightarrow> bool" where
  "dle a b = (\<not> isnan a \<and> \<not> isnan b \<and> \<not> dgt a b)"

text \<open>The classification of a maximum that is a number: too large, above the tolerance in
  force, or within it.\<close>

definition severity_amended :: "(double \<Rightarrow> bool) \<Rightarrow> double \<Rightarrow> double \<Rightarrow> bool \<Rightarrow> double \<Rightarrow> Severity option" where
  "severity_amended too_large tolerance relaxed relax m =
     (if too_large m then Some TooLarge
      else if relax then (if dgt m relaxed then Some Normal else None)
      else (if dgt m tolerance then Some Normal else None))"

definition failure_amended :: "Tolerances \<Rightarrow> WellResiduals \<Rightarrow> nat \<Rightarrow> double \<Rightarrow> WellFailure option" where
  "failure_amended tol w eq_idx m =
     (if eq_idx < numComponents w
      then map_option (\<lambda>s. \<lparr>failure_type = MassBalance, severity = s, failed_phase = int eq_idx, well_name = baseif_name w\<rparr>)
             (severity_amended (\<lambda>m. dgt m (max_residual_allowed tol)) (tolerance_wells tol)
                (relaxed_inner_tolerance_flow_ms_well tol) (relax_tolerance tol) m)
      else map_option (\<lambda>s. \<lparr>failure_type = Pressure, severity = s, failed_phase = - 1, well_name = baseif_name w\<rparr>)
             (severity_amended isinf (tolerance_pressure_ms_wells tol)
                (relaxed_inner_tolerance_pressure_ms_well tol) (relax_tolerance tol) m))"

text \<open>The values the maximum of an equation is taken over, as the spec words them: for a
  mass equation the absolute residual of every segment, scaled by \<open>B_avg\<close>; for the pressure
  equation the absolute residual of every segment but the top one.\<close>

definition residual_values :: "WellResiduals \<Rightarrow> double list \<Rightarrow> nat \<Rightarrow> double list" where
  "residual_values w B_avg eq_idx =
     (if eq_idx < numComponents w
      then map (\<lambda>seg. dmul (B_avg ! eq_idx) (dabs (residual w seg eq_idx))) [0..<numberOfSegments w]
      else map (\<lambda>seg. dabs (residual w seg eq_idx)) [1..<numberOfSegments w])"

text \<open>\<open>m\<close> is the greatest of zero and the values: it is one of them, and none is above it.\<close>

definition greatest_of :: "double \<Rightarrow> double list \<Rightarrow> bool" where
  "greatest_of m vs = (m \<in> set (Fin 0 # vs) \<and> list_all (\<lambda>v. \<not> dgt v m) (Fin 0 # vs))"

text \<open>No value that enters a maximum is NaN.\<close>

definition no_nan_residual :: "WellResiduals \<Rightarrow> double list \<Rightarrow> bool" where
  "no_nan_residual w B_avg =
     list_all (\<lambda>eq_idx. list_all (\<lambda>v. \<not> isnan v) (residual_values w B_avg eq_idx)) [0..<numWellEq w]"

text \<open>Example: a well of two segments and one component, with a mass residual of
  \<open>-0.1\<close> in the top segment and a pressure residual of \<open>1e10\<close> in segment 1.\<close>

definition well_ex :: WellResiduals where
  "well_ex = \<lparr>numberOfSegments = 2, numWellEq = 2, numComponents = 1, SPres = 1, baseif_name = ''W1'',
              residual = (\<lambda>seg eq_idx. if seg = 1 \<and> eq_idx = 1 then Fin 10000000000
                                   else if seg = 0 \<and> eq_idx = 0 then Fin (- 1 / 10) else Fin 0)\<rparr>"

definition tol_ex :: Tolerances where
  "tol_ex = \<lparr>max_residual_allowed = Fin 10000000, tolerance_wells = Fin (1 / 10000),
             relaxed_inner_tolerance_flow_ms_well = Fin (1 / 2),
             tolerance_pressure_ms_wells = Fin 1000,
             relaxed_inner_tolerance_pressure_ms_well = Fin 50000, relax_tolerance = False\<rparr>"

text \<open>The same well with a pressure residual of \<open>1e9\<close> in the top segment, where the
  control equation stands, and of \<open>-2000\<close> in segment 1.\<close>

definition well_top :: WellResiduals where
  "well_top = \<lparr>numberOfSegments = 2, numWellEq = 2, numComponents = 1, SPres = 1, baseif_name = ''W1'',
               residual = (\<lambda>seg eq_idx. if seg = 0 \<and> eq_idx = 1 then Fin 1000000000
                                    else if seg = 1 \<and> eq_idx = 1 then Fin (- 2000)
                                    else if seg = 0 \<and> eq_idx = 0 then Fin (- 1 / 10) else Fin 0)\<rparr>"

text \<open>A well whose residuals are all NaN.\<close>

definition well_nan :: WellResiduals where
  "well_nan = \<lparr>numberOfSegments = 2, numWellEq = 2, numComponents = 1, SPres = 1, baseif_name = ''W1'',
               residual = (\<lambda>seg eq_idx. NaN)\<rparr>"

text \<open>Tolerances with the relaxed flow tolerance \<open>0.1\<close> below the strict one \<open>1\<close>.\<close>

definition tol_low :: Tolerances where
  "tol_low = \<lparr>max_residual_allowed = Fin 10000000, tolerance_wells = Fin 1,
              relaxed_inner_tolerance_flow_ms_well = Fin (1 / 10),
              tolerance_pressure_ms_wells = Fin 1000,
              relaxed_inner_tolerance_pressure_ms_well = Fin 50000, relax_tolerance = False\<rparr>"

subsection \<open>\<^verbatim>\<open>assembleICDPressureEq\<close>\<close>

datatype SegmentType = REGULAR | SICD | AICD | VALVE

datatype ICDStatus = OPEN | SHUT

text \<open>A segment of the segment set; \<open>valve_status\<close> is \<^verbatim>\<open>valve().status()\<close> and is read for
  valve segments only.\<close>

record Segment =
  segmentNumber :: int
  outletSegment :: int
  segmentType :: SegmentType
  valve_status :: ICDStatus

text \<open>
  The class \<^verbatim>\<open>MultisegmentWellAssemble\<close>, which writes into the linear system, is not among
  the sources. The linear system is the sequence of the assembly calls made on it, each
  with its arguments.
\<close>

datatype assemble_call =
    assembleTrivialEq int real
  | assemblePressureEq int int int Eval Eval bool bool

text \<open>The members the function reads: the segment set, the primary variables
  (\<^verbatim>\<open>getSegmentPressure\<close> and \<^verbatim>\<open>eval(seg)[WQTotal]\<close>), the pressure drops of the devices
  (computed by the segment class, outside the sources, for the unit system of the call), the
  upwinding segments and the active phases of the fluid system; and the linear system.\<close>

record MultisegmentWellEval =
  segmentSet :: "Segment list"
  segmentNumberToIndex :: "int \<Rightarrow> int"
  getSegmentPressure :: "int \<Rightarrow> Eval"
  eval_WQTotal :: "int \<Rightarrow> Eval"
  pressureDropSpiralICD :: "int \<Rightarrow> Eval"
  pressureDropAutoICD :: "int \<Rightarrow> Eval"
  pressureDropValve :: "int \<Rightarrow> Eval"
  upwinding_segments :: "int list"
  waterPhaseActive :: bool
  gasPhaseActive :: bool
  linSys :: "assemble_call list"

text \<open>The segment part of the well state.\<close>

record SegmentState =
  pressure_drop_friction :: "real list"
  pressure_drop_hydrostatic :: "real list"
  pressure_drop_accel :: "real list"

definition assembleICDPressureEq ::
    "int \<Rightarrow> MultisegmentWellEval \<times> SegmentState \<Rightarrow> error + (MultisegmentWellEval \<times> SegmentState)" where
  "assembleICDPressureEq seg st =
     (case st of (w, ws) \<Rightarrow>
        if seg = 0 then Inl AssertionFailed
        else ebind (vec_idx (segmentSet w) seg) (\<lambda>segment.
          if segmentType segment = VALVE \<and> valve_status segment = SHUT
          then ebind (vec_set (pressure_drop_friction ws) seg 0) (\<lambda>pdf.
                 Inr (w\<lparr>linSys := linSys w @ [assembleTrivialEq seg (val (eval_WQTotal w seg))]\<rparr>,
                      ws\<lparr>pressure_drop_friction := pdf\<rparr>))
          else
            ebind (case segmentType segment of
                     SICD \<Rightarrow> Inr (pressureDropSpiralICD w seg)
                   | AICD \<Rightarrow> Inr (pressureDropAutoICD w seg)
                   | VALVE \<Rightarrow> Inr (pressureDropValve w seg)
                   | REGULAR \<Rightarrow> Inl RuntimeError) (\<lambda>icd_pressure_drop.
            let pressure_equation = Eval_sub (getSegmentPressure w seg) icd_pressure_drop
            in ebind (vec_set (pressure_drop_friction ws) seg (val icd_pressure_drop)) (\<lambda>pdf.
               let outlet_segment_index = segmentNumberToIndex w (outletSegment segment);
                   outlet_pressure = getSegmentPressure w outlet_segment_index
               in ebind (vec_idx (upwinding_segments w) seg) (\<lambda>seg_upwind.
                    Inr (w\<lparr>linSys := linSys w @
                              [assemblePressureEq seg seg_upwind outlet_segment_index
                                 pressure_equation outlet_pressure
                                 (waterPhaseActive w) (gasPhaseActive w)]\<rparr>,
                         ws\<lparr>pressure_drop_friction := pdf\<rparr>))))))"

definition well_valve :: MultisegmentWellEval where
  "well_valve = \<lparr>segmentSet =
       [\<lparr>segmentNumber = 1, outletSegment = 0, segmentType = REGULAR, valve_status = OPEN\<rparr>,
        \<lparr>segmentNumber = 2, outletSegment = 1, segmentType = REGULAR, valve_status = OPEN\<rparr>,
        \<lparr>segmentNumber = 3, outletSegment = 2, segmentType = REGULAR, valve_status = OPEN\<rparr>,
        \<lparr>segmentNumber = 4, outletSegment = 3, segmentType = VALVE, valve_status = SHUT\<rparr>],
     segmentNumberToIndex = (\<lambda>n. n - 1),
     getSegmentPressure = (\<lambda>s. \<lparr>val = 200 - of_int s, derivs = [1, 0]\<rparr>),
     eval_WQTotal = (\<lambda>s. \<lparr>val = 5, derivs = [0, 1]\<rparr>),
     pressureDropSpiralICD = (\<lambda>s. \<lparr>val = 1, derivs = [0, 0]\<rparr>),
     pressureDropAutoICD = (\<lambda>s. \<lparr>val = 2, derivs = [0, 0]\<rparr>),
     pressureDropValve = (\<lambda>s. \<lparr>val = 3, derivs = [0, 0]\<rparr>),
     upwinding_segments = [0, 1, 2, 3],
     waterPhaseActive = True, gasPhaseActive = True, linSys = []\<rparr>"

definition segment_state0 :: SegmentState where
  "segment_state0 = \<lparr>pressure_drop_friction = [7, 7, 7, 7], pressure_drop_hydrostatic = [8, 8, 8, 8],
                     pressure_drop_accel = [9, 9, 9, 9]\<rparr>"

section \<open>The well-group tree\<close>

subsection \<open>Specifications, phases and nodes\<close>

text \<open>
  Modelled from the spec: the enumerations, the specification structs and \<^verbatim>\<open>PhaseUsage\<close> are
  declared in headers that are not among the sources. Section 6 of the spec lists the production
  control modes \<open>NONE, ORAT, WRAT, GRAT, LRAT, CRAT, RESV, PRBL, BHP, THP, GRUP, FLD\<close> and
  the injection control modes \<open>NONE, RATE, RESV, BHP, THP, REIN, VREP, GRUP, FLD\<close>; section 4.6
  names the procedures \<open>WELL\<close>, \<open>RATE\<close> and \<open>NONE_P\<close>. The constructors carry a prefix where the
  C++ scopes keep equal names apart.
\<close>

datatype ProdControlMode =
    Prod_NONE | Prod_ORAT | Prod_WRAT | Prod_GRAT | Prod_LRAT | Prod_CRAT | Prod_RESV
  | Prod_PRBL | Prod_BHP | Prod_THP | Prod_GRUP | Prod_FLD

datatype Procedure = NONE_P | Proc_RATE | Proc_WELL

datatype InjControlMode =
    Inj_NONE | Inj_RATE | Inj_RESV | Inj_BHP | Inj_THP | Inj_REIN | Inj_VREP | Inj_GRUP | Inj_FLD

datatype WellControlType = BHP | THP | RESERVOIR_RATE | SURFACE_RATE

datatype WellType = INJECTOR | PRODUCER

datatype PhaseIndex = Aqua | Liquid | Vapour

record ProductionSpecification =
  prod_control_mode :: ProdControlMode
  procedure :: Procedure
  oil_max_rate :: real
  water_max_rate :: real
  gas_max_rate :: real
  liquid_max_rate :: real
  prod_reservoir_flow_max_rate :: real
  prod_guide_rate :: real

record InjectionSpecification =
  inj_control_mode :: InjControlMode
  surface_flow_max_rate :: real
  inj_reservoir_flow_max_rate :: real
  inj_guide_rate :: real

record PhaseUsage =
  num_phases :: nat
  phase_used :: "PhaseIndex \<Rightarrow> bool"
  phase_pos :: "PhaseIndex \<Rightarrow> int"

text \<open>The members of \<^verbatim>\<open>WellsGroupInterface\<close>, without the back pointer to the parent, which
  none of the embedded functions follows.\<close>

record WellsGroupInterface =
  name :: string
  efficicency_factor :: real
  production_specification :: ProductionSpecification
  injection_specification :: InjectionSpecification
  phase_usage :: PhaseUsage
  individual_control :: bool
  should_update_well_targets :: bool

text \<open>The members that \<^verbatim>\<open>WellNode\<close> adds. The pointer \<^verbatim>\<open>wells_\<close> is the store of type
  \<open>Wells\<close> that the functions take and return.\<close>

record WellNodeMembers =
  self_index :: int
  group_control_index :: int
  shut_well :: bool

datatype Node =
    WellNode WellsGroupInterface WellNodeMembers
  | WellsGroup WellsGroupInterface "Node list"

text \<open>\<^verbatim>\<open>WellPhasesSummed\<close>: four arrays of three doubles.\<close>

record WellPhasesSummed =
  res_inj_rates :: "real list"
  res_prod_rates :: "real list"
  surf_inj_rates :: "real list"
  surf_prod_rates :: "real list"

definition WellPhasesSummed0 :: WellPhasesSummed where
  "WellPhasesSummed0 = \<lparr>res_inj_rates = [0, 0, 0], res_prod_rates = [0, 0, 0],
                         surf_inj_rates = [0, 0, 0], surf_prod_rates = [0, 0, 0]\<rparr>"

definition add3 :: "real list \<Rightarrow> real list \<Rightarrow> real list" where
  "add3 a b = [a ! 0 + b ! 0, a ! 1 + b ! 1, a ! 2 + b ! 2]"

text \<open>\<^verbatim>\<open>WellPhasesSummed::operator+=\<close>.\<close>

definition WellPhasesSummed_add :: "WellPhasesSummed \<Rightarrow> WellPhasesSummed \<Rightarrow> WellPhasesSummed" where
  "WellPhasesSummed_add s other =
     \<lparr>res_inj_rates = add3 (res_inj_rates s) (res_inj_rates other),
      res_prod_rates = add3 (res_prod_rates s) (res_prod_rates other),
      surf_inj_rates = add3 (surf_inj_rates s) (surf_inj_rates other),
      surf_prod_rates = add3 (surf_prod_rates s) (surf_prod_rates other)\<rparr>"

subsection \<open>The well controls\<close>

text \<open>
  Modelled from the spec: the C structs \<^verbatim>\<open>Wells\<close> and \<^verbatim>\<open>WellControls\<close> and their functions
  (\<^verbatim>\<open>append_well_controls\<close>, \<^verbatim>\<open>well_controls_iset_*\<close>, \<^verbatim>\<open>set_current_control\<close>,
  \<^verbatim>\<open>well_controls_stop_well\<close>, \<^verbatim>\<open>well_controls_open_well\<close>) are not among the sources.
  Section 4.6 of the spec describes their use: a control slot is installed by appending it, or
  by overwriting the slot recorded as the group-control slot, and is then selected as the
  current one; a well is disabled or opened. A well of the store holds its type and its
  controls: the slots, the index of the current slot and the open flag.
\<close>

record WellControl =
  ctrl_type :: WellControlType
  ctrl_target :: real
  ctrl_alq :: real
  ctrl_vfp :: real
  ctrl_distr :: "real list"

record WellControls =
  controls :: "WellControl list"
  current :: int
  well_is_open :: bool

record Well =
  well_type :: WellType
  ctrls :: WellControls

type_synonym Wells = "Well list"

definition invalid_alq :: real where
  "invalid_alq = - (10 ^ 100)"

definition invalid_vfp :: real where
  "invalid_vfp = - 2147483647"

text \<open>The address \<^verbatim>\<open>&v[i]\<close> of an element, used as the start of an array.\<close>

definition vec_from :: "'a list \<Rightarrow> int \<Rightarrow> error + 'a list" where
  "vec_from xs i = (if 0 \<le> i \<and> i \<le> int (length xs) then Inr (drop (nat i) xs) else Inl UndefinedBehaviour)"

definition update_ctrls :: "int \<Rightarrow> (WellControls \<Rightarrow> error + WellControls) \<Rightarrow> Wells \<Rightarrow> error + Wells" where
  "update_ctrls well_index f W =
     ebind (vec_idx W well_index) (\<lambda>wl.
     ebind (f (ctrls wl)) (\<lambda>c. vec_set W well_index (wl\<lparr>ctrls := c\<rparr>)))"

definition append_well_controls ::
    "WellControlType \<Rightarrow> real \<Rightarrow> real \<Rightarrow> real \<Rightarrow> real list \<Rightarrow> int \<Rightarrow> Wells \<Rightarrow> error + Wells" where
  "append_well_controls type target alq vfp distr well_index W =
     update_ctrls well_index
       (\<lambda>c. Inr (c\<lparr>controls := controls c @
                     [\<lparr>ctrl_type = type, ctrl_target = target, ctrl_alq = alq, ctrl_vfp = vfp,
                       ctrl_distr = distr\<rparr>]\<rparr>)) W"

text \<open>The four calls \<^verbatim>\<open>well_controls_iset_type\<close>, \<^verbatim>\<open>_target\<close>, \<^verbatim>\<open>_alq\<close> and \<^verbatim>\<open>_distr\<close> on one
  slot.\<close>

definition well_controls_iset ::
    "int \<Rightarrow> int \<Rightarrow> WellControlType \<Rightarrow> real \<Rightarrow> real \<Rightarrow> real list \<Rightarrow> Wells \<Rightarrow> error + Wells" where
  "well_controls_iset well_index ctrl_index type target alq distr W =
     update_ctrls well_index
       (\<lambda>c. ebind (vec_idx (controls c) ctrl_index) (\<lambda>slot.
             ebind (vec_set (controls c) ctrl_index
                      (slot\<lparr>ctrl_type := type, ctrl_target := target, ctrl_alq := alq,
                            ctrl_distr := distr\<rparr>)) (\<lambda>cs.
               Inr (c\<lparr>controls := cs\<rparr>)))) W"

definition set_current_control :: "int \<Rightarrow> int \<Rightarrow> Wells \<Rightarrow> error + Wells" where
  "set_current_control well_index ctrl_index W =
     update_ctrls well_index (\<lambda>c. Inr (c\<lparr>current := ctrl_index\<rparr>)) W"

definition well_controls_stop_well :: "int \<Rightarrow> Wells \<Rightarrow> error + Wells" where
  "well_controls_stop_well well_index W =
     update_ctrls well_index (\<lambda>c. Inr (c\<lparr>well_is_open := False\<rparr>)) W"

definition well_controls_open_well :: "int \<Rightarrow> Wells \<Rightarrow> error + Wells" where
  "well_controls_open_well well_index W =
     update_ctrls well_index (\<lambda>c. Inr (c\<lparr>well_is_open := True\<rparr>)) W"

subsection \<open>Rates and targets by mode\<close>

text \<open>The loop \<^verbatim>\<open>tot_rate += rates[phase]\<close> over the phases.\<close>

fun sum_rates :: "real list \<Rightarrow> nat list \<Rightarrow> real \<Rightarrow> error + real" where
  "sum_rates rates [] tot_rate = Inr tot_rate"
| "sum_rates rates (phase # phases) tot_rate =
     ebind (vec_idx rates (int phase)) (\<lambda>r. sum_rates rates phases (tot_rate + r))"

definition rateByMode_prod ::
    "PhaseUsage \<Rightarrow> real list \<Rightarrow> real list \<Rightarrow> ProdControlMode \<Rightarrow> error + real" where
  "rateByMode_prod pu res_rates surf_rates mode =
     (case mode of
        Prod_ORAT \<Rightarrow> vec_idx surf_rates (phase_pos pu Liquid)
      | Prod_WRAT \<Rightarrow> vec_idx surf_rates (phase_pos pu Aqua)
      | Prod_GRAT \<Rightarrow> vec_idx surf_rates (phase_pos pu Vapour)
      | Prod_LRAT \<Rightarrow> ebind (vec_idx surf_rates (phase_pos pu Liquid)) (\<lambda>oil.
                     ebind (vec_idx surf_rates (phase_pos pu Aqua)) (\<lambda>water. Inr (oil + water)))
      | Prod_RESV \<Rightarrow> sum_rates res_rates [0..<num_phases pu] 0
      | _ \<Rightarrow> Inl RuntimeError)"

definition rateByMode_inj ::
    "PhaseUsage \<Rightarrow> real list \<Rightarrow> real list \<Rightarrow> InjControlMode \<Rightarrow> error + real" where
  "rateByMode_inj pu res_rates surf_rates mode =
     (case mode of
        Inj_RATE \<Rightarrow> sum_rates surf_rates [0..<num_phases pu] 0
      | Inj_RESV \<Rightarrow> sum_rates res_rates [0..<num_phases pu] 0
      | _ \<Rightarrow> Inl RuntimeError)"

definition getTarget_prod :: "WellsGroupInterface \<Rightarrow> ProdControlMode \<Rightarrow> error + real" where
  "getTarget_prod g mode =
     (case mode of
        Prod_GRAT \<Rightarrow> Inr (gas_max_rate (production_specification g))
      | Prod_WRAT \<Rightarrow> Inr (water_max_rate (production_specification g))
      | Prod_ORAT \<Rightarrow> Inr (oil_max_rate (production_specification g))
      | Prod_RESV \<Rightarrow> Inr (prod_reservoir_flow_max_rate (production_specification g))
      | Prod_LRAT \<Rightarrow> Inr (liquid_max_rate (production_specification g))
      | _ \<Rightarrow> Inl RuntimeError)"

definition getTarget_inj :: "WellsGroupInterface \<Rightarrow> InjControlMode \<Rightarrow> error + real" where
  "getTarget_inj g mode =
     (case mode of
        Inj_RATE \<Rightarrow> Inr (surface_flow_max_rate (injection_specification g))
      | Inj_RESV \<Rightarrow> Inr (inj_reservoir_flow_max_rate (injection_specification g))
      | _ \<Rightarrow> Inl RuntimeError)"

subsection \<open>The functions of \<^verbatim>\<open>WellNode\<close>\<close>

definition WellNode_type :: "WellNodeMembers \<Rightarrow> Wells \<Rightarrow> error + WellType" where
  "WellNode_type wn W = ebind (vec_idx W (self_index wn)) (\<lambda>wl. Inr (well_type wl))"

definition WellNode_productionGuideRate :: "WellsGroupInterface \<Rightarrow> bool \<Rightarrow> real" where
  "WellNode_productionGuideRate g only_group =
     (if \<not> only_group \<or> \<not> individual_control g
      then prod_guide_rate (production_specification g) else 0)"

definition WellNode_injectionGuideRate :: "WellsGroupInterface \<Rightarrow> bool \<Rightarrow> real" where
  "WellNode_injectionGuideRate g only_group =
     (if \<not> only_group \<or> \<not> individual_control g
      then inj_guide_rate (injection_specification g) else 0)"

text \<open>The first loop of \<^verbatim>\<open>WellNode::conditionsMet\<close>: the well reports its rates.\<close>

fun report_rates ::
    "bool \<Rightarrow> int \<Rightarrow> real list \<Rightarrow> real list \<Rightarrow> nat list \<Rightarrow> WellPhasesSummed \<Rightarrow> error + WellPhasesSummed" where
  "report_rates injector base res surf [] s = Inr s"
| "report_rates injector base res surf (phase # phases) s =
     ebind (vec_idx res (base + int phase)) (\<lambda>r.
     ebind (vec_idx surf (base + int phase)) (\<lambda>sf.
       if injector
       then ebind (vec_set (res_inj_rates s) (int phase) r) (\<lambda>a.
            ebind (vec_set (surf_inj_rates s) (int phase) sf) (\<lambda>b.
              report_rates injector base res surf phases (s\<lparr>res_inj_rates := a, surf_inj_rates := b\<rparr>)))
       else ebind (vec_set (res_prod_rates s) (int phase) r) (\<lambda>a.
            ebind (vec_set (surf_prod_rates s) (int phase) sf) (\<lambda>b.
              report_rates injector base res surf phases (s\<lparr>res_prod_rates := a, surf_prod_rates := b\<rparr>)))))"

text \<open>The loop \<^verbatim>\<open>my_rate += ctrls_distr[phase] * rates[np*self_index_ + phase]\<close>.\<close>

fun distr_rate :: "real list \<Rightarrow> real list \<Rightarrow> int \<Rightarrow> nat list \<Rightarrow> real \<Rightarrow> error + real" where
  "distr_rate distr rates base [] my_rate = Inr my_rate"
| "distr_rate distr rates base (phase # phases) my_rate =
     ebind (vec_idx distr (int phase)) (\<lambda>d.
     ebind (vec_idx rates (base + int phase)) (\<lambda>r.
       distr_rate distr rates base phases (my_rate + d * r)))"

text \<open>The \<^verbatim>\<open>switch\<close> on the type of one control: is the control violated?\<close>

definition ctrl_violated ::
    "bool \<Rightarrow> nat \<Rightarrow> int \<Rightarrow> real list \<Rightarrow> real list \<Rightarrow> real list \<Rightarrow> WellControl \<Rightarrow> error + bool" where
  "ctrl_violated producer np self well_bhp res surf c =
     (case ctrl_type c of
        BHP \<Rightarrow> ebind (vec_idx well_bhp self) (\<lambda>my_well_bhp.
                 Inr (if producer then ctrl_target c > my_well_bhp else ctrl_target c < my_well_bhp))
      | THP \<Rightarrow> Inl InvalidArgument
      | RESERVOIR_RATE \<Rightarrow>
          ebind (distr_rate (ctrl_distr c) res (int np * self) [0..<np] 0) (\<lambda>my_rate.
            Inr (\<bar>my_rate\<bar> - \<bar>ctrl_target c\<bar> > max \<bar>my_rate\<bar> \<bar>ctrl_target c\<bar> * (1 / 1000000)))
      | SURFACE_RATE \<Rightarrow>
          ebind (distr_rate (ctrl_distr c) surf (int np * self) [0..<np] 0) (\<lambda>my_rate.
            Inr (\<bar>my_rate\<bar> > \<bar>ctrl_target c\<bar>)))"

text \<open>The loop over the controls: the index of the first violated control, if any.\<close>

fun ctrl_loop ::
    "bool \<Rightarrow> nat \<Rightarrow> WellNodeMembers \<Rightarrow> real list \<Rightarrow> real list \<Rightarrow> real list \<Rightarrow> WellControls \<Rightarrow> nat list
       \<Rightarrow> error + nat option" where
  "ctrl_loop producer np wn well_bhp res surf cs [] = Inr None"
| "ctrl_loop producer np wn well_bhp res surf cs (ctrl_index # rest) =
     (if int ctrl_index = current cs \<or> int ctrl_index = group_control_index wn
      then ctrl_loop producer np wn well_bhp res surf cs rest
      else ebind (vec_idx (controls cs) (int ctrl_index)) (\<lambda>c.
           ebind (ctrl_violated producer np (self_index wn) well_bhp res surf c) (\<lambda>violated.
             if violated then Inr (Some ctrl_index)
             else ctrl_loop producer np wn well_bhp res surf cs rest)))"

definition WellNode_conditionsMet ::
    "WellsGroupInterface \<Rightarrow> WellNodeMembers \<Rightarrow> real list \<Rightarrow> real list \<Rightarrow> real list \<Rightarrow> WellPhasesSummed
       \<Rightarrow> Wells \<Rightarrow> error + (bool \<times> WellPhasesSummed \<times> Wells)" where
  "WellNode_conditionsMet g wn well_bhp res surf summed_phases W =
     (let np = num_phases (phase_usage g)
      in ebind (vec_idx W (self_index wn)) (\<lambda>wl.
         ebind (report_rates (well_type wl = INJECTOR) (int np * self_index wn) res surf [0..<np]
                  summed_phases) (\<lambda>s.
         ebind (ctrl_loop (well_type wl = PRODUCER) np wn well_bhp res surf (ctrls wl)
                  [0..<length (controls (ctrls wl))]) (\<lambda>v.
           case v of
             None \<Rightarrow> Inr (True, s, W)
           | Some ctrl_index \<Rightarrow>
               ebind (set_current_control (self_index wn) (int ctrl_index) W) (\<lambda>W'.
                 Inr (False, s, W'))))))"

text \<open>The end of the two \<^verbatim>\<open>apply...GroupControl\<close> functions of a well: the control is appended
  or written to the group-control slot, which becomes the current one.\<close>

definition install_group_control ::
    "WellControlType \<Rightarrow> real \<Rightarrow> real list \<Rightarrow> WellNodeMembers \<Rightarrow> Wells \<Rightarrow> error + (WellNodeMembers \<times> Wells)" where
  "install_group_control wct target distr wn W =
     ebind (if group_control_index wn < 0
            then ebind (append_well_controls wct target invalid_alq invalid_vfp distr (self_index wn) W)
                   (\<lambda>W'. ebind (vec_idx W' (self_index wn)) (\<lambda>wl.
                      Inr (wn\<lparr>group_control_index := int (length (controls (ctrls wl))) - 1\<rparr>, W')))
            else ebind (well_controls_iset (self_index wn) (group_control_index wn) wct target
                          (- (10 ^ 100)) distr W)
                   (\<lambda>W'. Inr (wn, W')))
       (\<lambda>(wn', W'). ebind (set_current_control (self_index wn') (group_control_index wn') W')
                       (\<lambda>W''. Inr (wn', W'')))"

text \<open>The \<^verbatim>\<open>switch\<close> of \<^verbatim>\<open>WellNode::applyProdGroupControl\<close>: the control type and the
  distribution for a mode.\<close>

definition prod_control_distr ::
    "PhaseUsage \<Rightarrow> ProdControlMode \<Rightarrow> error + (WellControlType \<times> real list)" where
  "prod_control_distr pu control_mode =
     (case control_mode of
        Prod_ORAT \<Rightarrow>
          if \<not> phase_used pu Liquid then Inl RuntimeError
          else ebind (vec_set [0, 0, 0] (phase_pos pu Liquid) 1) (\<lambda>distr. Inr (SURFACE_RATE, distr))
      | Prod_WRAT \<Rightarrow>
          if \<not> phase_used pu Aqua then Inl RuntimeError
          else ebind (vec_set [0, 0, 0] (phase_pos pu Aqua) 1) (\<lambda>distr. Inr (SURFACE_RATE, distr))
      | Prod_GRAT \<Rightarrow>
          if \<not> phase_used pu Vapour then Inl RuntimeError
          else ebind (vec_set [0, 0, 0] (phase_pos pu Vapour) 1) (\<lambda>distr. Inr (SURFACE_RATE, distr))
      | Prod_LRAT \<Rightarrow>
          if \<not> phase_used pu Liquid then Inl RuntimeError
          else if \<not> phase_used pu Aqua then Inl RuntimeError
          else ebind (vec_set [0, 0, 0] (phase_pos pu Liquid) 1) (\<lambda>distr.
               ebind (vec_set distr (phase_pos pu Aqua) 1) (\<lambda>distr'. Inr (SURFACE_RATE, distr')))
      | Prod_RESV \<Rightarrow> Inr (RESERVOIR_RATE, [1, 1, 1])
      | _ \<Rightarrow> Inl RuntimeError)"

definition WellNode_applyProdGroupControl ::
    "WellsGroupInterface \<Rightarrow> WellNodeMembers \<Rightarrow> ProdControlMode \<Rightarrow> real \<Rightarrow> bool \<Rightarrow> Wells
       \<Rightarrow> error + ((WellsGroupInterface \<times> WellNodeMembers) \<times> Wells)" where
  "WellNode_applyProdGroupControl g wn control_mode target only_group W =
     ebind (WellNode_type wn W) (\<lambda>type.
       if type \<noteq> PRODUCER
       then (if target = 0 then Inr ((g, wn), W) else Inl AssertionFailed)
       else if only_group \<and> individual_control g then Inr ((g, wn), W)
       else (let ntarget = - target / efficicency_factor g
             in ebind (prod_control_distr (phase_usage g) control_mode) (\<lambda>(wct, distr).
                ebind (install_group_control wct ntarget distr wn W) (\<lambda>(wn', W').
                  Inr ((g, wn'), W')))))"

definition WellNode_applyInjGroupControl ::
    "WellsGroupInterface \<Rightarrow> WellNodeMembers \<Rightarrow> InjControlMode \<Rightarrow> real \<Rightarrow> bool \<Rightarrow> Wells
       \<Rightarrow> error + ((WellsGroupInterface \<times> WellNodeMembers) \<times> Wells)" where
  "WellNode_applyInjGroupControl g wn control_mode target only_group W =
     ebind (WellNode_type wn W) (\<lambda>type.
       if type \<noteq> INJECTOR
       then (if target = 0 then Inr ((g, wn), W) else Inl AssertionFailed)
       else if only_group \<and> individual_control g then Inr ((g, wn), W)
       else (let effective_target = target / efficicency_factor g
             in ebind (case control_mode of
                         Inj_RATE \<Rightarrow> Inr SURFACE_RATE
                       | Inj_RESV \<Rightarrow> Inr RESERVOIR_RATE
                       | _ \<Rightarrow> Inl RuntimeError) (\<lambda>wct.
                ebind (install_group_control wct effective_target [1, 1, 1] wn W) (\<lambda>(wn', W').
                  Inr ((g\<lparr>individual_control := False\<rparr>, wn'), W')))))"

definition WellNode_shutWell :: "WellNodeMembers \<Rightarrow> Wells \<Rightarrow> error + (WellNodeMembers \<times> Wells)" where
  "WellNode_shutWell wn W =
     (if shut_well wn
      then ebind (well_controls_stop_well (self_index wn) W) (\<lambda>W'. Inr (wn, W'))
      else ebind (if group_control_index wn < 0
                  then ebind (append_well_controls SURFACE_RATE 0 invalid_alq invalid_vfp [1, 1, 1]
                                (self_index wn) W)
                         (\<lambda>W'. ebind (vec_idx W' (self_index wn)) (\<lambda>wl.
                            Inr (wn\<lparr>group_control_index := int (length (controls (ctrls wl))) - 1\<rparr>, W')))
                  else ebind (well_controls_iset (self_index wn) (group_control_index wn) SURFACE_RATE
                                0 0 [1, 1, 1] W)
                         (\<lambda>W'. Inr (wn, W')))
             (\<lambda>(wn', W'). ebind (well_controls_open_well (self_index wn') W')
                             (\<lambda>W''. Inr (wn', W''))))"

definition WellNode_getWorstOffending ::
    "WellsGroupInterface \<Rightarrow> WellNodeMembers \<Rightarrow> real list \<Rightarrow> real list \<Rightarrow> ProdControlMode \<Rightarrow> error + real" where
  "WellNode_getWorstOffending g wn res surf mode =
     (let np = num_phases (phase_usage g);
          index = self_index wn * int np
      in ebind (vec_from res index) (\<lambda>res_rates.
         ebind (vec_from surf index) (\<lambda>surf_rates.
           rateByMode_prod (phase_usage g) res_rates surf_rates mode)))"

subsection \<open>The functions of \<^verbatim>\<open>WellsGroup\<close>\<close>

text \<open>Each virtual function is one function on \<open>Node\<close>, with the body of \<^verbatim>\<open>WellNode\<close> for a
  well and the body of \<^verbatim>\<open>WellsGroup\<close> for a group; the loop over the children is the second
  function of each pair.\<close>

definition individualControl :: "Node \<Rightarrow> bool" where
  "individualControl n = (case n of WellNode g wn \<Rightarrow> individual_control g
                                  | WellsGroup g children \<Rightarrow> individual_control g)"

fun productionGuideRate :: "Node \<Rightarrow> bool \<Rightarrow> real"
  and productionGuideRate_children :: "Node list \<Rightarrow> bool \<Rightarrow> real \<Rightarrow> real" where
  "productionGuideRate (WellNode g wn) only_group = WellNode_productionGuideRate g only_group"
| "productionGuideRate (WellsGroup g children) only_group =
     productionGuideRate_children children only_group 0"
| "productionGuideRate_children [] only_group acc = acc"
| "productionGuideRate_children (child # children) only_group acc =
     (if only_group
      then (if \<not> individualControl child
            then productionGuideRate_children children only_group
                   (acc + productionGuideRate child only_group)
            else productionGuideRate_children children only_group acc)
      else productionGuideRate_children children only_group
             (acc + productionGuideRate child only_group))"

fun injectionGuideRate :: "Node \<Rightarrow> bool \<Rightarrow> real"
  and injectionGuideRate_children :: "Node list \<Rightarrow> bool \<Rightarrow> real \<Rightarrow> real" where
  "injectionGuideRate (WellNode g wn) only_group = WellNode_injectionGuideRate g only_group"
| "injectionGuideRate (WellsGroup g children) only_group =
     injectionGuideRate_children children only_group 0"
| "injectionGuideRate_children [] only_group acc = acc"
| "injectionGuideRate_children (child # children) only_group acc =
     injectionGuideRate_children children only_group (acc + injectionGuideRate child only_group)"

fun applyProdGroupControl ::
    "Node \<Rightarrow> ProdControlMode \<Rightarrow> real \<Rightarrow> bool \<Rightarrow> Wells \<Rightarrow> error + (Node \<times> Wells)"
  and applyProdGroupControl_children ::
    "Node list \<Rightarrow> ProdControlMode \<Rightarrow> real \<Rightarrow> real \<Rightarrow> bool \<Rightarrow> real \<Rightarrow> Wells \<Rightarrow> error + (Node list \<times> Wells)" where
  "applyProdGroupControl (WellNode g wn) control_mode target only_group W =
     ebind (WellNode_applyProdGroupControl g wn control_mode target only_group W)
       (\<lambda>((g', wn'), W'). Inr (WellNode g' wn', W'))"
| "applyProdGroupControl (WellsGroup g children) control_mode target only_group W =
     (if prod_control_mode (production_specification g) = Prod_NONE then Inr (WellsGroup g children, W)
      else if \<not> only_group \<or> prod_control_mode (production_specification g) = Prod_FLD
      then (let my_guide_rate = productionGuideRate_children children False 0
            in if my_guide_rate = 0 then Inr (WellsGroup g children, W)
               else ebind (applyProdGroupControl_children children control_mode target
                             (efficicency_factor g) only_group my_guide_rate W)
                      (\<lambda>(children', W').
                         Inr (WellsGroup (g\<lparr>production_specification :=
                                (production_specification g)\<lparr>prod_control_mode := Prod_FLD\<rparr>\<rparr>)
                                children', W')))
      else Inr (WellsGroup g children, W))"
| "applyProdGroupControl_children [] control_mode target eff only_group my_guide_rate W = Inr ([], W)"
| "applyProdGroupControl_children (child # children) control_mode target eff only_group my_guide_rate W =
     (let child_target = target / eff * productionGuideRate child only_group / my_guide_rate
      in ebind (applyProdGroupControl child control_mode child_target False W) (\<lambda>(child', W').
         ebind (applyProdGroupControl_children children control_mode target eff only_group
                  my_guide_rate W') (\<lambda>(children', W'').
           Inr (child' # children', W''))))"

fun applyInjGroupControl ::
    "Node \<Rightarrow> InjControlMode \<Rightarrow> real \<Rightarrow> bool \<Rightarrow> Wells \<Rightarrow> error + (Node \<times> Wells)"
  and applyInjGroupControl_children ::
    "Node list \<Rightarrow> InjControlMode \<Rightarrow> real \<Rightarrow> real \<Rightarrow> bool \<Rightarrow> real \<Rightarrow> Wells \<Rightarrow> error + (Node list \<times> Wells)" where
  "applyInjGroupControl (WellNode g wn) control_mode target only_group W =
     ebind (WellNode_applyInjGroupControl g wn control_mode target only_group W)
       (\<lambda>((g', wn'), W'). Inr (WellNode g' wn', W'))"
| "applyInjGroupControl (WellsGroup g children) control_mode target only_group W =
     (if inj_control_mode (injection_specification g) = Inj_NONE then Inr (WellsGroup g children, W)
      else if \<not> only_group \<or> inj_control_mode (injection_specification g) = Inj_FLD
      then (let my_guide_rate = injectionGuideRate_children children only_group 0
            in if my_guide_rate = 0 then Inr (WellsGroup g children, W)
               else ebind (applyInjGroupControl_children children control_mode target
                             (efficicency_factor g) only_group my_guide_rate W)
                      (\<lambda>(children', W').
                         Inr (WellsGroup (g\<lparr>injection_specification :=
                                (injection_specification g)\<lparr>inj_control_mode := Inj_FLD\<rparr>\<rparr>)
                                children', W')))
      else Inr (WellsGroup g children, W))"
| "applyInjGroupControl_children [] control_mode target eff only_group my_guide_rate W = Inr ([], W)"
| "applyInjGroupControl_children (child # children) control_mode target eff only_group my_guide_rate W =
     (let child_target = target / eff * injectionGuideRate child only_group / my_guide_rate
      in ebind (applyInjGroupControl child control_mode child_target False W) (\<lambda>(child', W').
         ebind (applyInjGroupControl_children children control_mode target eff only_group
                  my_guide_rate W') (\<lambda>(children', W'').
           Inr (child' # children', W''))))"

text \<open>
  A pointer to a well of the tree is the path to it: the indices of the children to
  descend through, from the node the call was made on; \<open>None\<close> is the null pointer. The
  pair that \<^verbatim>\<open>WellsGroup::getWorstOffending\<close> starts from is value-initialised.
\<close>

fun getWorstOffending ::
    "Node \<Rightarrow> real list \<Rightarrow> real list \<Rightarrow> ProdControlMode \<Rightarrow> error + (nat list option \<times> real)"
  and getWorstOffending_children ::
    "Node list \<Rightarrow> nat \<Rightarrow> real list \<Rightarrow> real list \<Rightarrow> ProdControlMode \<Rightarrow> nat list option \<times> real
       \<Rightarrow> error + (nat list option \<times> real)" where
  "getWorstOffending (WellNode g wn) res surf mode =
     ebind (WellNode_getWorstOffending g wn res surf mode) (\<lambda>rate. Inr (Some [], rate))"
| "getWorstOffending (WellsGroup g children) res surf mode =
     getWorstOffending_children children 0 res surf mode (None, 0)"
| "getWorstOffending_children [] i res surf mode mx = Inr mx"
| "getWorstOffending_children (child # children) i res surf mode mx =
     ebind (getWorstOffending child res surf mode) (\<lambda>(first, second).
       getWorstOffending_children children (i + 1) res surf mode
         (if i = 0 \<or> snd mx < second then (map_option (\<lambda>path. i # path) first, second) else mx))"

text \<open>\<^verbatim>\<open>first->shutWell()\<close> for a pointer returned by \<^verbatim>\<open>getWorstOffending\<close>.\<close>

fun shutWell_at :: "nat list \<Rightarrow> Node \<Rightarrow> Wells \<Rightarrow> error + (Node \<times> Wells)" where
  "shutWell_at [] (WellNode g wn) W =
     ebind (WellNode_shutWell wn W) (\<lambda>(wn', W'). Inr (WellNode g wn', W'))"
| "shutWell_at (i # path) (WellsGroup g children) W =
     (if i < length children
      then ebind (shutWell_at path (children ! i) W) (\<lambda>(child', W').
             Inr (WellsGroup g (children[i := child']), W'))
      else Inl UndefinedBehaviour)"
| "shutWell_at path n W = Inl UndefinedBehaviour"

text \<open>The loop of \<^verbatim>\<open>WellsGroup::conditionsMet\<close> over the injection modes: the first mode
  whose target is violated, with the target.\<close>

fun injection_violation ::
    "WellsGroupInterface \<Rightarrow> WellPhasesSummed \<Rightarrow> InjControlMode list \<Rightarrow> error + (InjControlMode \<times> real) option" where
  "injection_violation g child_phases_summed [] = Inr None"
| "injection_violation g child_phases_summed (mode # modes) =
     (if inj_control_mode (injection_specification g) = mode
      then injection_violation g child_phases_summed modes
      else ebind (getTarget_inj g mode) (\<lambda>target_rate.
             if target_rate \<ge> 0
             then ebind (rateByMode_inj (phase_usage g) (res_inj_rates child_phases_summed)
                           (surf_inj_rates child_phases_summed) mode) (\<lambda>my_rate.
                    if my_rate > target_rate then Inr (Some (mode, target_rate))
                    else injection_violation g child_phases_summed modes)
             else injection_violation g child_phases_summed modes))"

text \<open>The loop over the production modes: the first mode whose target is violated.\<close>

fun production_violation ::
    "WellsGroupInterface \<Rightarrow> WellPhasesSummed \<Rightarrow> ProdControlMode list \<Rightarrow> error + ProdControlMode option" where
  "production_violation g child_phases_summed [] = Inr None"
| "production_violation g child_phases_summed (mode # modes) =
     (if prod_control_mode (production_specification g) = mode
      then production_violation g child_phases_summed modes
      else ebind (getTarget_prod g mode) (\<lambda>target_rate.
             if target_rate \<ge> 0
             then ebind (rateByMode_prod (phase_usage g) (res_prod_rates child_phases_summed)
                           (surf_prod_rates child_phases_summed) mode) (\<lambda>my_rate.
                    if \<bar>my_rate\<bar> > target_rate then Inr (Some mode)
                    else production_violation g child_phases_summed modes)
             else production_violation g child_phases_summed modes))"

definition injection_modes :: "InjControlMode list" where
  "injection_modes = [Inj_RATE, Inj_RESV]"

definition production_modes :: "ProdControlMode list" where
  "production_modes = [Prod_ORAT, Prod_WRAT, Prod_GRAT, Prod_LRAT, Prod_RESV]"

definition set_inj_control_mode :: "InjControlMode \<Rightarrow> Node \<Rightarrow> Node" where
  "set_inj_control_mode mode n =
     (case n of
        WellNode g wn \<Rightarrow>
          WellNode (g\<lparr>injection_specification := (injection_specification g)\<lparr>inj_control_mode := mode\<rparr>\<rparr>) wn
      | WellsGroup g children \<Rightarrow>
          WellsGroup (g\<lparr>injection_specification := (injection_specification g)\<lparr>inj_control_mode := mode\<rparr>\<rparr>)
            children)"

text \<open>The part of \<^verbatim>\<open>WellsGroup::conditionsMet\<close> after the loop over the children, when every
  child has met its conditions.\<close>

definition group_constraints ::
    "WellsGroupInterface \<Rightarrow> Node list \<Rightarrow> WellPhasesSummed \<Rightarrow> real list \<Rightarrow> real list \<Rightarrow> WellPhasesSummed
       \<Rightarrow> Wells \<Rightarrow> error + (bool \<times> WellPhasesSummed \<times> Node \<times> Wells)" where
  "group_constraints g children child_phases_summed res surf summed_phases W =
     ebind (injection_violation g child_phases_summed injection_modes) (\<lambda>iv.
       case iv of
         Some (mode, target_rate) \<Rightarrow>
           ebind (applyInjGroupControl (WellsGroup g children) mode target_rate False W) (\<lambda>(n', W').
             Inr (False, summed_phases, set_inj_control_mode mode n', W'))
       | None \<Rightarrow>
           ebind (production_violation g child_phases_summed production_modes) (\<lambda>pv.
             case pv of
               Some production_mode_violated \<Rightarrow>
                 (case procedure (production_specification g) of
                    Proc_WELL \<Rightarrow>
                      ebind (getWorstOffending (WellsGroup g children) res surf production_mode_violated)
                        (\<lambda>(first, second).
                           case first of
                             None \<Rightarrow> Inl UndefinedBehaviour
                           | Some path \<Rightarrow>
                               ebind (shutWell_at path (WellsGroup g children) W) (\<lambda>(n', W').
                                 Inr (False, summed_phases, n', W')))
                  | Proc_RATE \<Rightarrow>
                      ebind (getTarget_prod g production_mode_violated) (\<lambda>target.
                      ebind (applyProdGroupControl (WellsGroup g children) production_mode_violated
                               target False W) (\<lambda>(n', W').
                        Inr (False, summed_phases, n', W')))
                  | NONE_P \<Rightarrow> Inr (False, summed_phases, WellsGroup g children, W))
             | None \<Rightarrow>
                 Inr (True, WellPhasesSummed_add summed_phases child_phases_summed,
                      WellsGroup g children, W)))"

fun conditionsMet ::
    "Node \<Rightarrow> real list \<Rightarrow> real list \<Rightarrow> real list \<Rightarrow> WellPhasesSummed \<Rightarrow> Wells
       \<Rightarrow> error + (bool \<times> WellPhasesSummed \<times> Node \<times> Wells)"
  and conditionsMet_children ::
    "Node list \<Rightarrow> real list \<Rightarrow> real list \<Rightarrow> real list \<Rightarrow> WellPhasesSummed \<Rightarrow> Wells
       \<Rightarrow> error + (bool \<times> WellPhasesSummed \<times> Node list \<times> Wells)" where
  "conditionsMet (WellNode g wn) well_bhp res surf summed_phases W =
     ebind (WellNode_conditionsMet g wn well_bhp res surf summed_phases W) (\<lambda>(met, s, W').
       Inr (met, s, WellNode g wn, W'))"
| "conditionsMet (WellsGroup g children) well_bhp res surf summed_phases W =
     ebind (conditionsMet_children children well_bhp res surf WellPhasesSummed0 W)
       (\<lambda>(met, child_phases_summed, children', W').
          if \<not> met then Inr (False, summed_phases, WellsGroup g children', W')
          else group_constraints g children' child_phases_summed res surf summed_phases W')"
| "conditionsMet_children [] well_bhp res surf child_phases_summed W =
     Inr (True, child_phases_summed, [], W)"
| "conditionsMet_children (child # children) well_bhp res surf child_phases_summed W =
     ebind (conditionsMet child well_bhp res surf WellPhasesSummed0 W)
       (\<lambda>(met, current_child_phases_summed, child', W').
          if \<not> met then Inr (False, child_phases_summed, child' # children, W')
          else ebind (conditionsMet_children children well_bhp res surf
                        (WellPhasesSummed_add child_phases_summed current_child_phases_summed) W')
                 (\<lambda>(met', s, children', W''). Inr (met', s, child' # children', W'')))"

subsection \<open>Example trees\<close>

definition pu3 :: PhaseUsage where
  "pu3 = \<lparr>num_phases = 3, phase_used = (\<lambda>p. True),
          phase_pos = (\<lambda>p. case p of Aqua \<Rightarrow> 0 | Liquid \<Rightarrow> 1 | Vapour \<Rightarrow> 2)\<rparr>"

definition prod_spec0 :: ProductionSpecification where
  "prod_spec0 = \<lparr>prod_control_mode = Prod_NONE, procedure = NONE_P, oil_max_rate = - 1,
                 water_max_rate = - 1, gas_max_rate = - 1, liquid_max_rate = - 1,
                 prod_reservoir_flow_max_rate = - 1, prod_guide_rate = 1\<rparr>"

definition inj_spec0 :: InjectionSpecification where
  "inj_spec0 = \<lparr>inj_control_mode = Inj_NONE, surface_flow_max_rate = - 1,
                inj_reservoir_flow_max_rate = - 1, inj_guide_rate = 0\<rparr>"

definition iface0 :: "string \<Rightarrow> WellsGroupInterface" where
  "iface0 nm = \<lparr>name = nm, efficicency_factor = 1, production_specification = prod_spec0,
                injection_specification = inj_spec0, phase_usage = pu3,
                individual_control = True, should_update_well_targets = False\<rparr>"

text \<open>A producer well, and a group of two producers with an oil target.\<close>

definition producer :: "string \<Rightarrow> int \<Rightarrow> Node" where
  "producer nm i = WellNode (iface0 nm) \<lparr>self_index = i, group_control_index = - 1, shut_well = True\<rparr>"

definition group_of_two :: "ProdControlMode \<Rightarrow> real \<Rightarrow> Node" where
  "group_of_two mode oil_target =
     WellsGroup ((iface0 ''G'')\<lparr>production_specification :=
                    prod_spec0\<lparr>prod_control_mode := mode, procedure := Proc_RATE,
                               oil_max_rate := oil_target\<rparr>\<rparr>)
       [producer ''P1'' 0, producer ''P2'' 1]"

definition bhp_control :: WellControl where
  "bhp_control = \<lparr>ctrl_type = BHP, ctrl_target = 100, ctrl_alq = 0, ctrl_vfp = 0, ctrl_distr = [0, 0, 0]\<rparr>"

definition wells0 :: Wells where
  "wells0 = [\<lparr>well_type = PRODUCER, ctrls = \<lparr>controls = [bhp_control], current = 0, well_is_open = True\<rparr>\<rparr>,
             \<lparr>well_type = PRODUCER, ctrls = \<lparr>controls = [bhp_control], current = 0, well_is_open = True\<rparr>\<rparr>]"

text \<open>Rates by well and phase (water, oil, gas): the producers flow \<open>-80\<close> and \<open>-30\<close> of oil.\<close>

definition rates0 :: "real list" where
  "rates0 = [0, - 80, 0, 0, - 30, 0]"

definition bhp0 :: "real list" where
  "bhp0 = [200, 200]"

text \<open>The same group with both wells under group control.\<close>

definition group_controlled :: "string \<Rightarrow> int \<Rightarrow> Node" where
  "group_controlled nm i =
     WellNode ((iface0 nm)\<lparr>individual_control := False\<rparr>)
       \<lparr>self_index = i, group_control_index = - 1, shut_well = True\<rparr>"

definition field_group :: Node where
  "field_group =
     WellsGroup ((iface0 ''G'')\<lparr>production_specification :=
                    prod_spec0\<lparr>prod_control_mode := Prod_FLD, procedure := Proc_RATE\<rparr>\<rparr>)
       [group_controlled ''P1'' 0, group_controlled ''P2'' 1]"

text \<open>A group under \<open>FLD\<close> with one well under individual control and one under group control.\<close>

definition mixed_group :: Node where
  "mixed_group =
     WellsGroup ((iface0 ''G'')\<lparr>production_specification :=
                    prod_spec0\<lparr>prod_control_mode := Prod_FLD, procedure := Proc_RATE\<rparr>\<rparr>)
       [producer ''P1'' 0, group_controlled ''P2'' 1]"

text \<open>An accumulator that already holds rates.\<close>

definition summed1 :: WellPhasesSummed where
  "summed1 = \<lparr>res_inj_rates = [1, 1, 1], res_prod_rates = [1, 1, 1],
              surf_inj_rates = [1, 1, 1], surf_prod_rates = [1, 1, 1]\<rparr>"

subsection \<open>Statements of the claims about the tree\<close>

text \<open>The sum over the children of their guide rates, as the spec words the quantity \<open>G\<close>
  of \<^verbatim>\<open>applyProdGroupControl\<close>.\<close>

definition children_guide_rate :: "Node list \<Rightarrow> bool \<Rightarrow> real" where
  "children_guide_rate children only_group =
     sum_list (map (\<lambda>child. productionGuideRate child only_group) children)"

text \<open>Visiting every child in order with the call \<open>visit\<close>, as the spec words the
  recursion into the children.\<close>

fun for_each_child ::
    "(Node \<Rightarrow> Wells \<Rightarrow> error + (Node \<times> Wells)) \<Rightarrow> Node list \<Rightarrow> Wells \<Rightarrow> error + (Node list \<times> Wells)" where
  "for_each_child visit [] W = Inr ([], W)"
| "for_each_child visit (child # children) W =
     ebind (visit child W) (\<lambda>(child', W').
     ebind (for_each_child visit children W') (\<lambda>(children', W'').
       Inr (child' # children', W'')))"

text \<open>A target of a mode other than the active one is set and exceeded by the
  aggregated rate of the children.\<close>

definition inj_target_exceeded :: "WellsGroupInterface \<Rightarrow> WellPhasesSummed \<Rightarrow> InjControlMode \<Rightarrow> bool" where
  "inj_target_exceeded g agg mode =
     (inj_control_mode (injection_specification g) \<noteq> mode \<and>
      (case getTarget_inj g mode of
         Inl e \<Rightarrow> False
       | Inr target \<Rightarrow> target \<ge> 0 \<and>
           (case rateByMode_inj (phase_usage g) (res_inj_rates agg) (surf_inj_rates agg) mode of
              Inl e \<Rightarrow> False
            | Inr rate \<Rightarrow> rate > target)))"

definition prod_target_exceeded :: "WellsGroupInterface \<Rightarrow> WellPhasesSummed \<Rightarrow> ProdControlMode \<Rightarrow> bool" where
  "prod_target_exceeded g agg mode =
     (prod_control_mode (production_specification g) \<noteq> mode \<and>
      (case getTarget_prod g mode of
         Inl e \<Rightarrow> False
       | Inr target \<Rightarrow> target \<ge> 0 \<and>
           (case rateByMode_prod (phase_usage g) (res_prod_rates agg) (surf_prod_rates agg) mode of
              Inl e \<Rightarrow> False
            | Inr rate \<Rightarrow> \<bar>rate\<bar> > target)))"

text \<open>The rate of a well in phase \<open>p\<close>, read from a rate vector that holds the rates
  by well and phase: the entry \<open>np * self_index + p\<close>, for the \<open>np\<close> phases of the well.\<close>

definition well_phase_rate :: "real list \<Rightarrow> WellsGroupInterface \<Rightarrow> WellNodeMembers \<Rightarrow> nat \<Rightarrow> real" where
  "well_phase_rate rates g wn p =
     (if p < num_phases (phase_usage g)
      then rates ! nat (int (num_phases (phase_usage g)) * self_index wn + int p) else 0)"

text \<open>The wells below a node.\<close>

fun wells_of :: "Node \<Rightarrow> (WellsGroupInterface \<times> WellNodeMembers) list" where
  "wells_of (WellNode g wn) = [(g, wn)]"
| "wells_of (WellsGroup g children) = concat (map wells_of children)"

text \<open>The rates of a list of wells, summed by phase.\<close>

definition total_rates :: "real list \<Rightarrow> (WellsGroupInterface \<times> WellNodeMembers) list \<Rightarrow> real list" where
  "total_rates rates ws =
     map (\<lambda>p. sum_list (map (\<lambda>(g, wn). well_phase_rate rates g wn p) ws)) [0, 1, 2]"

definition is_injector :: "Wells \<Rightarrow> WellsGroupInterface \<times> WellNodeMembers \<Rightarrow> bool" where
  "is_injector W w = (well_type (W ! nat (self_index (snd w))) = INJECTOR)"

text \<open>The aggregated rate of a list of nodes, from the two rate vectors: the injection rates
  are the rates of the injectors below the nodes, summed by phase, and the production rates
  those of the other wells below them.\<close>

definition aggregated_rate :: "real list \<Rightarrow> real list \<Rightarrow> Wells \<Rightarrow> Node list \<Rightarrow> WellPhasesSummed" where
  "aggregated_rate res surf W nodes =
     (let ws = concat (map wells_of nodes);
          injectors = filter (is_injector W) ws;
          others = filter (\<lambda>w. \<not> is_injector W w) ws
      in \<lparr>res_inj_rates = total_rates res injectors, res_prod_rates = total_rates res others,
          surf_inj_rates = total_rates surf injectors, surf_prod_rates = total_rates surf others\<rparr>)"

definition children_of :: "Node \<Rightarrow> Node list" where
  "children_of n = (case n of WellNode g wn \<Rightarrow> [] | WellsGroup g children \<Rightarrow> children)"

definition interface_of :: "Node \<Rightarrow> WellsGroupInterface" where
  "interface_of n = (case n of WellNode g wn \<Rightarrow> g | WellsGroup g children \<Rightarrow> g)"

text \<open>At a node, no target of an inactive mode is set and exceeded by the aggregated rate
  of the children of the node.\<close>

definition no_target_exceeded :: "real list \<Rightarrow> real list \<Rightarrow> Wells \<Rightarrow> Node \<Rightarrow> bool" where
  "no_target_exceeded res surf W n =
     (let g = interface_of n;
          agg = aggregated_rate res surf W (children_of n)
      in list_all (\<lambda>mode. \<not> inj_target_exceeded g agg mode) injection_modes
       \<and> list_all (\<lambda>mode. \<not> prod_target_exceeded g agg mode) production_modes)"

text \<open>The four arrays of a \<^verbatim>\<open>WellPhasesSummed\<close> hold three entries each.\<close>

definition three_phases :: "WellPhasesSummed \<Rightarrow> bool" where
  "three_phases s = (length (res_inj_rates s) = 3 \<and> length (res_prod_rates s) = 3
                   \<and> length (surf_inj_rates s) = 3 \<and> length (surf_prod_rates s) = 3)"

text \<open>All nodes of a tree.\<close>

fun nodes_of :: "Node \<Rightarrow> Node list" where
  "nodes_of (WellNode g wn) = [WellNode g wn]"
| "nodes_of (WellsGroup g children) = WellsGroup g children # concat (map nodes_of children)"

section \<open>Properties of the aquifer\<close>

lemma vec_at_in_range: "i < length xs \<Longrightarrow> vec_at xs i = Inr (xs ! i)"
  by (simp add: vec_at_def)

lemma ebind_Inr: "ebind (Inr x) f = f x"
  by (simp add: ebind_def)

lemma ebind_Inl: "ebind (Inl e) f = Inl e"
  by (simp add: ebind_def)

lemma foldl_flux_val:
  "val (foldl (\<lambda>W q. Eval_add W (Eval_mul_scalar q c)) W0 qs)
     = val W0 + sum_list (map (\<lambda>q. val q * c) qs)"
  by (induction qs arbitrary: W0) (simp_all add: Eval_add_def Eval_mul_scalar_def)

lemma foldl_flux_derivs:
  "\<forall>q \<in> set qs. length (derivs q) = length (derivs W0) \<Longrightarrow>
   length (derivs (foldl (\<lambda>W q. Eval_add W (Eval_mul_scalar q c)) W0 qs)) = length (derivs W0)
   \<and> (\<forall>k < length (derivs W0).
         derivs (foldl (\<lambda>W q. Eval_add W (Eval_mul_scalar q c)) W0 qs) ! k
           = derivs W0 ! k + sum_list (map (\<lambda>q. derivs q ! k * c) qs))"
proof (induction qs arbitrary: W0)
  case Nil
  show ?case by simp
next
  case (Cons q qs)
  let ?W1 = "Eval_add W0 (Eval_mul_scalar q c)"
  have len: "length (derivs ?W1) = length (derivs W0)"
    using Cons.prems by (simp add: Eval_add_def Eval_mul_scalar_def)
  have step: "\<forall>k < length (derivs W0). derivs ?W1 ! k = derivs W0 ! k + derivs q ! k * c"
    using Cons.prems by (simp add: Eval_add_def Eval_mul_scalar_def)
  have "\<forall>q' \<in> set qs. length (derivs q') = length (derivs ?W1)"
    using Cons.prems len by simp
  from Cons.IH [OF this] len step show ?case
    by (simp add: add.assoc)
qed

text \<open>
  C1. For a connection index \<open>i\<close> of a constructed aquifer, \<^verbatim>\<open>calculate_inflow_rate\<close> stores
  in \<open>Qai[i]\<close> the value \<open>area_fraction(i) * (a - b * (pressure_current[i] -
  value(pressure_previous[i])))\<close>, where \<open>a\<close> and \<open>b\<close> are the results of
  \<^verbatim>\<open>calculate_a_b_constants\<close> and equal the spec's formulas with \<open>PItd = c0 + c1 * ((t + dt) / Tc)\<close>
  and \<open>PItd' = c1\<close>. The derivatives of the stored rate are those of the current pressure
  scaled by \<open>- area_fraction(i) * b\<close>: nothing else contributes derivatives.
\<close>

theorem calculate_inflow_rate_formula:
  assumes "connections_sized aq" and "i < length (cell_idx aq)"
  shows "let Tc = time_constant aq;
             beta = aquifer_influx_constant aq;
             tD = simulationTimeElapsed timer / Tc;
             PItd = PItd_spec (coeff aq ! 0) (coeff aq ! 1) (simulationTimeElapsed timer)
                      (currentStepLength timer) Tc;
             PItdprime = coeff aq ! 1;
             dp = pa0 aq + val (rhow aq ! i) * gravity aq * (cell_depth aq ! i - d0 aq)
                    - val (pressure_previous aq ! i);
             a = a_spec Tc beta dp (val (W_flux aq)) PItd PItdprime tD;
             b = b_spec Tc beta PItd PItdprime tD;
             alpha = alphai aq ! i;
             pcurr = pressure_current aq ! i;
             pprev = pressure_previous aq ! i
         in dpai aq i = Inr dp
          \<and> area_fraction aq i = Inr alpha
          \<and> calculate_a_b_constants aq i timer = Inr (a, b)
          \<and> calculate_inflow_rate i timer aq =
              Inr (aq\<lparr>Qai := (Qai aq)[i := \<lparr>val = alpha * (a - b * (val pcurr - val pprev)),
                                           derivs = map (\<lambda>d. alpha * - (b * d)) (derivs pcurr)\<rparr>]\<rparr>)"
proof -
  from assms have r: "i < length (cell_depth aq)" "i < length (alphai aq)" "i < length (rhow aq)"
      "i < length (pressure_previous aq)" "i < length (pressure_current aq)" "i < length (Qai aq)"
      "0 < length (coeff aq)" "1 < length (coeff aq)"
    by (simp_all add: connections_sized_def)
  have d: "dpai aq i = Inr (pa0 aq + val (rhow aq ! i) * gravity aq * (cell_depth aq ! i - d0 aq)
                    - val (pressure_previous aq ! i))"
    using r by (simp add: dpai_def vec_at_in_range ebind_Inr)
  have ab: "calculate_a_b_constants aq i timer =
     Inr (a_spec (time_constant aq) (aquifer_influx_constant aq)
            (pa0 aq + val (rhow aq ! i) * gravity aq * (cell_depth aq ! i - d0 aq)
                    - val (pressure_previous aq ! i)) (val (W_flux aq))
            (PItd_spec (coeff aq ! 0) (coeff aq ! 1) (simulationTimeElapsed timer)
                      (currentStepLength timer) (time_constant aq)) (coeff aq ! 1)
            (simulationTimeElapsed timer / time_constant aq),
          b_spec (time_constant aq) (aquifer_influx_constant aq)
            (PItd_spec (coeff aq ! 0) (coeff aq ! 1) (simulationTimeElapsed timer)
                      (currentStepLength timer) (time_constant aq)) (coeff aq ! 1)
            (simulationTimeElapsed timer / time_constant aq))"
    using r by (simp add: calculate_a_b_constants_def Let_def d vec_at_in_range ebind_Inr
        a_spec_def b_spec_def PItd_spec_def add.commute)
  have q: "scalar_mul_Eval al (scalar_sub_Eval a (scalar_mul_Eval b (Eval_sub_scalar pc c)))
      = \<lparr>val = al * (a - b * (val pc - c)), derivs = map (\<lambda>d. al * - (b * d)) (derivs pc)\<rparr>"
    for al a b pc c
    by (simp add: scalar_mul_Eval_def scalar_sub_Eval_def Eval_sub_scalar_def comp_def)
  show ?thesis
    using r by (simp add: Let_def d ab area_fraction_def calculate_inflow_rate_def
        vec_at_in_range ebind_Inr q)
qed

theorem calculate_inflow_rate_formula_witness:
  "connections_sized aq0 \<and> 0 < length (cell_idx aq0)
   \<and> calculate_a_b_constants aq0 0 timer0 = Inr (1 / 10, 1 / 5)
   \<and> calculate_inflow_rate 0 timer0 aq0
       = Inr (aq0\<lparr>Qai := [\<lparr>val = - 3 / 20, derivs = [- 1 / 10, 0]\<rparr>, \<lparr>val = 3, derivs = [0, 1]\<rparr>]\<rparr>)"
proof -
  have s: "connections_sized aq0" by (simp add: connections_sized_def aq0_def)
  have i: "0 < length (cell_idx aq0)" by (simp add: aq0_def)
  from calculate_inflow_rate_formula [OF s i, of timer0] s i show ?thesis
    by (simp add: Let_def aq0_def timer0_def time_constant_def aquifer_influx_constant_def
        a_spec_def b_spec_def PItd_spec_def)
qed

text \<open>
  C9. \<^verbatim>\<open>after_time_step\<close> adds to the cumulative flux the sum over the connections of
  \<open>Qai[i]\<close> times the current step length, in the value and in every derivative, and changes no
  other member of the aquifer.
\<close>

theorem after_time_step_accumulates:
  "val (W_flux (after_time_step timer aq))
     = val (W_flux aq) + sum_list (map (\<lambda>q. val q * currentStepLength timer) (Qai aq))
   \<and> ((\<forall>q \<in> set (Qai aq). length (derivs q) = length (derivs (W_flux aq))) \<longrightarrow>
        (\<forall>k < length (derivs (W_flux aq)).
           derivs (W_flux (after_time_step timer aq)) ! k
             = derivs (W_flux aq) ! k
               + sum_list (map (\<lambda>q. derivs q ! k * currentStepLength timer) (Qai aq))))
   \<and> (after_time_step timer aq)\<lparr>W_flux := W_flux aq\<rparr> = aq"
  using foldl_flux_derivs [of "Qai aq" "W_flux aq" "currentStepLength timer"]
  by (simp add: after_time_step_def foldl_flux_val)

theorem after_time_step_accumulates_witness:
  "val (W_flux (after_time_step timer0 aq0)) = 51
   \<and> derivs (W_flux (after_time_step timer0 aq0)) ! 0 = 10
   \<and> derivs (W_flux (after_time_step timer0 aq0)) ! 1 = 10"
proof -
  have l: "\<forall>q \<in> set (Qai aq0). length (derivs q) = length (derivs (W_flux aq0))"
    by (simp add: aq0_def)
  from after_time_step_accumulates [of timer0 aq0] l show ?thesis
    by (simp add: aq0_def timer0_def)
qed

lemma polynomial_fit_matrix:
  "map (\<lambda>i. map (\<lambda>j. (X ! i) ^ j) [0..<n]) [0..<length X] = map (\<lambda>x. map (\<lambda>j. x ^ j) [0..<n]) X"
  by (rule nth_equalityI) simp_all

text \<open>
  C8. With bias and \<open>N\<close> sample pairs, \<^verbatim>\<open>polynomial_fit\<close> fails (by its assertion
  \<^verbatim>\<open>X.size() >= colNum\<close>) when \<open>N < order + 1\<close>; otherwise it returns the \<open>order + 1\<close>
  coefficients that the QR solver gives for the Vandermonde matrix of the samples and the
  right-hand side \<open>y\<close>.
\<close>

theorem polynomial_fit_bias:
  assumes "length X = length y"
  shows "(length X < order + 1 \<longrightarrow>
            polynomial_fit householderQr_solve X y order True = Inl AssertionFailed)
       \<and> (\<not> length X < order + 1 \<longrightarrow>
            polynomial_fit householderQr_solve X y order True
              = Inr (map (\<lambda>i. householderQr_solve (vandermonde X order) y ! i) [0..<order + 1])
            \<and> length (map (\<lambda>i. householderQr_solve (vandermonde X order) y ! i) [0..<order + 1])
                = order + 1)"
  using assms polynomial_fit_matrix [of X "Suc order"]
  by (simp add: polynomial_fit_def vandermonde_def Let_def)

theorem polynomial_fit_bias_witness:
  "polynomial_fit solve_two_samples [0] [0] 1 True = Inl AssertionFailed
   \<and> polynomial_fit solve_two_samples [0, 1] [0, 1 / 2] 1 True = Inr [0, 1 / 2]"
proof -
  have a: "polynomial_fit solve_two_samples [0] [0] 1 True = Inl AssertionFailed"
    using polynomial_fit_bias [of "[0]" "[0]" 1 solve_two_samples] by simp
  have "[0..<Suc (Suc 0)] = [0, 1]"
    by (simp add: upt_rec)
  then have b: "polynomial_fit solve_two_samples [0, 1] [0, 1 / 2] 1 True = Inr [0, 1 / 2]"
    using polynomial_fit_bias [of "[0, 1]" "[0, 1 / 2]" 1 solve_two_samples]
    by (simp add: vandermonde_def solve_two_samples_def)
  from a b show ?thesis by simp
qed

text \<open>
  When every connection reaches its cell through exactly one face and the total area is not
  zero, the area fractions sum to 1 and each is the area of its connection over the total.
\<close>

lemma faceTag_direction_valid:
  "0 \<le> faceTag \<Longrightarrow> faceTag \<le> 5 \<Longrightarrow> faceTag_direction faceTag d = faceTag_direction faceTag XMinus"
  by (simp add: faceTag_direction_def)

lemma faces_loop_result:
  assumes "valid_tags faces" and "i < length fAc" and "i < length (reservoir_face_dir connection)"
  shows "\<exists>fd'. faces_loop ugrid connection i faces (fd, fAc, denom) =
           Inr (fd',
                (if matching_areas ugrid (reservoir_face_dir connection ! i) faces = [] then fAc
                 else fAc[i := last (matching_areas ugrid (reservoir_face_dir connection ! i) faces)]),
                denom + sum_list (matching_areas ugrid (reservoir_face_dir connection ! i) faces))"
  using assms
proof (induction faces arbitrary: fd fAc denom)
  case Nil
  then show ?case by (simp add: matching_areas_def)
next
  case (Cons face faces)
  obtain faceIdx faceTag where face: "face = (faceIdx, faceTag)"
    by (cases face)
  from Cons.prems(1) face have tag: "0 \<le> faceTag" "faceTag \<le> 5" and rest: "valid_tags faces"
    by (simp_all add: valid_tags_def)
  let ?dir = "reservoir_face_dir connection ! i"
  let ?d = "faceTag_direction faceTag fd"
  have d: "?d = faceTag_direction faceTag XMinus"
    using tag by (rule faceTag_direction_valid)
  show ?case
  proof (cases "?d = ?dir")
    case True
    let ?fAcS = "fAc[i := faceArea ugrid faceIdx]"
    have len: "i < length ?fAcS"
      using Cons.prems(2) by simp
    from Cons.IH [OF rest len Cons.prems(3), of ?d "denom + faceArea ugrid faceIdx"]
    obtain fd' where
      ih: "faces_loop ugrid connection i faces (?d, ?fAcS, denom + faceArea ugrid faceIdx) =
             Inr (fd',
                  (if matching_areas ugrid ?dir faces = [] then ?fAcS
                   else ?fAcS[i := last (matching_areas ugrid ?dir faces)]),
                  denom + faceArea ugrid faceIdx + sum_list (matching_areas ugrid ?dir faces))"
      by blast
    have m: "matching_areas ugrid ?dir ((faceIdx, faceTag) # faces)
               = faceArea ugrid faceIdx # matching_areas ugrid ?dir faces"
      using True d by (simp add: matching_areas_def)
    show ?thesis
      unfolding face
      using True ih Cons.prems(2,3)
      by (simp add: m vec_at_def ebind_def Let_def)
  next
    case False
    from Cons.IH [OF rest Cons.prems(2) Cons.prems(3), of ?d denom]
    obtain fd' where
      ih: "faces_loop ugrid connection i faces (?d, fAc, denom) =
             Inr (fd',
                  (if matching_areas ugrid ?dir faces = [] then fAc
                   else fAc[i := last (matching_areas ugrid ?dir faces)]),
                  denom + sum_list (matching_areas ugrid ?dir faces))"
      by blast
    have m: "matching_areas ugrid ?dir ((faceIdx, faceTag) # faces) = matching_areas ugrid ?dir faces"
      using False d by (simp add: matching_areas_def)
    show ?thesis
      unfolding face
      using False ih Cons.prems(3)
      by (simp add: m vec_at_def ebind_def Let_def)
  qed
qed

lemma length_store_last [simp]:
  "length (if ms = [] then fAc else fAc[i := last ms]) = length (fAc :: real list)"
  by simp

lemma cells_loop_result:
  assumes "\<forall>i \<in> set is. i < length (global_index connection) \<and> i < length fAc \<and> i < length depths
              \<and> i < length (reservoir_face_dir connection)
              \<and> valid_tags (cell2Faces ugrid (global_index connection ! i))"
  shows "\<exists>fd' depths'.
           cells_loop ugrid connection (global_index connection) is ((fd, fAc, denom), depths) =
             Inr ((fd',
                   foldl (\<lambda>f i. if connection_areas ugrid connection i = [] then f
                                 else f[i := last (connection_areas ugrid connection i)]) fAc is,
                   denom + sum_list (map (\<lambda>i. sum_list (connection_areas ugrid connection i)) is)),
                  depths')
           \<and> length depths' = length depths"
  using assms
proof (induction "is" arbitrary: fd fAc denom depths)
  case Nil
  show ?case by simp
next
  case (Cons i "is")
  let ?ms = "connection_areas ugrid connection i"
  let ?fAcS = "if ?ms = [] then fAc else fAc[i := last ?ms]"
  let ?depthsS = "depths[i := cellCenterDepth ugrid (global_index connection ! i)]"
  from Cons.prems have i: "i < length (global_index connection)" "i < length fAc" "i < length depths"
      "i < length (reservoir_face_dir connection)"
      "valid_tags (cell2Faces ugrid (global_index connection ! i))"
    by simp_all
  from faces_loop_result [OF i(5) i(2) i(4), of ugrid fd denom] obtain fd1 where
    f: "faces_loop ugrid connection i (cell2Faces ugrid (global_index connection ! i)) (fd, fAc, denom)
          = Inr (fd1, ?fAcS, denom + sum_list ?ms)"
    by (auto simp: connection_areas_def)
  have "\<forall>j \<in> set is. j < length (global_index connection) \<and> j < length ?fAcS \<and> j < length ?depthsS
              \<and> j < length (reservoir_face_dir connection)
              \<and> valid_tags (cell2Faces ugrid (global_index connection ! j))"
    using Cons.prems by simp
  from Cons.IH [OF this, of fd1 "denom + sum_list ?ms"] obtain fd' depths' where
    r: "cells_loop ugrid connection (global_index connection) is
          ((fd1, ?fAcS, denom + sum_list ?ms), ?depthsS) =
        Inr ((fd',
              foldl (\<lambda>f i. if connection_areas ugrid connection i = [] then f
                            else f[i := last (connection_areas ugrid connection i)]) ?fAcS is,
              denom + sum_list ?ms
                + sum_list (map (\<lambda>i. sum_list (connection_areas ugrid connection i)) is)),
             depths')"
    and l: "length depths' = length ?depthsS"
    by blast
  show ?case
    using i f r l by (simp add: vec_at_def ebind_def add.assoc)
qed

lemma alphai_loop_result:
  assumes "\<forall>i \<in> set is. i < length fAc \<and> i < length al"
  shows "alphai_loop fAc denom is al = Inr (foldl (\<lambda>al i. al[i := fAc ! i / denom]) al is)"
  using assms
  by (induction "is" arbitrary: al) (simp_all add: vec_at_def ebind_def)

lemma foldl_update_upt:
  "k \<le> length xs \<Longrightarrow> foldl (\<lambda>f i. f[i := a i]) xs [0..<k] = map a [0..<k] @ drop k xs"
proof (induction k)
  case 0
  show ?case by simp
next
  case (Suc k)
  then have k: "k < length xs" by simp
  have "(map a [0..<k] @ drop k xs)[k := a k] = map a [0..<k] @ (drop k xs)[0 := a k]"
    by (simp add: list_update_append)
  also have "(drop k xs)[0 := a k] = a k # drop (Suc k) xs"
    using k by (simp add: Cons_nth_drop_Suc [symmetric])
  finally show ?case
    using Suc by simp
qed

lemma foldl_update_all:
  "length xs = n \<Longrightarrow> foldl (\<lambda>f i. f[i := a i]) xs [0..<n] = map a [0..<n]"
  using foldl_update_upt [of n xs a] by simp

lemma sum_list_divide: "sum_list (map (\<lambda>x. x / d) xs) = sum_list xs / (d :: real)"
  by (induction xs) (simp_all add: add_divide_distrib)

lemma initialize_connections_one_face:
  fixes ugrid connection
  defines "n \<equiv> length (global_index connection)"
  assumes sizes: "length (influx_coeff connection) = n" "length (influx_multiplier connection) = n"
      "length (reservoir_face_dir connection) = n"
    and tags: "\<forall>i < n. valid_tags (cell2Faces ugrid (global_index connection ! i))"
    and one: "\<forall>i < n. length (connection_areas ugrid connection i) = 1"
    and nonzero: "sum_list (map (\<lambda>i. hd (connection_areas ugrid connection i)) [0..<n]) \<noteq> 0"
  shows "\<exists>aq'. initialize_connections ugrid faceDirection0 connection aq = Inr aq'
           \<and> sum_list (alphai aq') = 1
           \<and> (\<forall>i < n. alphai aq' ! i = faceArea_connected aq' ! i / sum_list (faceArea_connected aq'))"
proof -
  let ?a = "\<lambda>i. hd (connection_areas ugrid connection i)"
  let ?fAcI = "resize n 0 (faceArea_connected aq)"
  let ?depthsI = "resize n (d0 aq) (cell_depth aq)"
  let ?alI = "resize n 1 (alphai aq)"
  have len: "length ?fAcI = n" "length ?depthsI = n" "length ?alI = n"
    by (simp_all add: resize_def)
  have single: "connection_areas ugrid connection i \<noteq> []
      \<and> last (connection_areas ugrid connection i) = ?a i
      \<and> sum_list (connection_areas ugrid connection i) = ?a i" if "i < n" for i
  proof -
    from one that have "length (connection_areas ugrid connection i) = 1" by simp
    then obtain x where "connection_areas ugrid connection i = [x]"
      by (cases "connection_areas ugrid connection i") auto
    then show ?thesis by simp
  qed
  have pre: "\<forall>i \<in> set [0..<n]. i < length (global_index connection) \<and> i < length ?fAcI
               \<and> i < length ?depthsI \<and> i < length (reservoir_face_dir connection)
               \<and> valid_tags (cell2Faces ugrid (global_index connection ! i))"
    using sizes tags len by (simp add: n_def)
  from cells_loop_result [OF pre, of faceDirection0 0] obtain fd' depths' where
    c: "cells_loop ugrid connection (global_index connection) [0..<n] ((faceDirection0, ?fAcI, 0), ?depthsI) =
          Inr ((fd',
                foldl (\<lambda>f i. if connection_areas ugrid connection i = [] then f
                              else f[i := last (connection_areas ugrid connection i)]) ?fAcI [0..<n],
                0 + sum_list (map (\<lambda>i. sum_list (connection_areas ugrid connection i)) [0..<n])),
               depths')"
    by blast
  have f1: "foldl (\<lambda>f i. if connection_areas ugrid connection i = [] then f
                         else f[i := last (connection_areas ugrid connection i)]) ?fAcI [0..<n]
            = foldl (\<lambda>f i. f[i := ?a i]) ?fAcI [0..<n]"
    using single by (intro foldl_cong) simp_all
  have fAc: "foldl (\<lambda>f i. if connection_areas ugrid connection i = [] then f
                          else f[i := last (connection_areas ugrid connection i)]) ?fAcI [0..<n]
             = map ?a [0..<n]"
    unfolding f1 using len(1) by (rule foldl_update_all)
  have den: "sum_list (map (\<lambda>i. sum_list (connection_areas ugrid connection i)) [0..<n])
             = sum_list (map ?a [0..<n])"
    using single by (intro arg_cong [where f = sum_list] map_cong) simp_all
  let ?fAc = "map ?a [0..<n]"
  let ?denom = "sum_list ?fAc"
  have c': "cells_loop ugrid connection (global_index connection) [0..<n] ((faceDirection0, ?fAcI, 0), ?depthsI)
              = Inr ((fd', ?fAc, ?denom), depths')"
    using c by (simp add: fAc den)
  have "\<forall>i \<in> set [0..<n]. i < length ?fAc \<and> i < length ?alI"
    using len by simp
  from alphai_loop_result [OF this, of ?denom] have
    al: "alphai_loop ?fAc ?denom [0..<n] ?alI = Inr (map (\<lambda>i. ?fAc ! i / ?denom) [0..<n])"
    using foldl_update_all [OF len(3), of "\<lambda>i. ?fAc ! i / ?denom"] by simp
  have alm: "map (\<lambda>i. ?fAc ! i / ?denom) [0..<n] = map (\<lambda>x. x / ?denom) ?fAc"
    by (simp add: comp_def)
  have res: "initialize_connections ugrid faceDirection0 connection aq =
          Inr (aq\<lparr>cell_idx := global_index connection, cell_depth := depths',
                  alphai := map (\<lambda>x. x / ?denom) ?fAc, faceArea_connected := ?fAc\<rparr>)"
    using sizes c' al
    by (simp add: initialize_connections_def Let_def n_def [symmetric] ebind_def alm)
  have s: "sum_list (map (\<lambda>x. x / ?denom) ?fAc) = 1"
    using nonzero by (simp only: sum_list_divide) simp
  show ?thesis
    using res s by (simp add: comp_def)
qed

text \<open>
  C4. The area fractions after \<^verbatim>\<open>initialize_connections\<close> should sum to 1. For a cell
  with two faces on the connected side, the second face overwrites the area of the first
  while \<^verbatim>\<open>denom_face_areas\<close> counts both: the single fraction is \<open>2 / 3\<close>.
\<close>

theorem initialize_connections_two_faces:
  "initialize_connections fault_grid faceDirection0 fault_connection
       (aq0\<lparr>cell_depth := [], alphai := [], faceArea_connected := []\<rparr>)
     = Inr (aq0\<lparr>cell_idx := [0], cell_depth := [100], alphai := [2 / 3], faceArea_connected := [2]\<rparr>)
   \<and> sum_list [2 / 3 :: real] \<noteq> 1"
  by (simp add: initialize_connections_def fault_grid_def fault_connection_def aq0_def Let_def
      resize_def vec_at_def ebind_def faceTag_direction_def)

section \<open>Properties of the multi-segment well\<close>

lemma dgt_trans_le: "dle a b \<Longrightarrow> dgt m b \<Longrightarrow> dgt m a"
  by (cases a; cases b; cases m) (auto simp: dle_def isnan_def)

lemma well_failure_eq_amended:
  assumes "dle (tolerance_wells tol) (relaxed_inner_tolerance_flow_ms_well tol)"
      and "dle (tolerance_pressure_ms_wells tol) (relaxed_inner_tolerance_pressure_ms_well tol)"
      and "\<not> isnan m"
  shows "well_failure tol w eq_idx m = failure_amended tol w eq_idx m"
  using dgt_trans_le [OF assms(1), of m] dgt_trans_le [OF assms(2), of m] assms(3)
  by (auto simp: well_failure_def failure_amended_def severity_amended_def)

lemma map_filter_cong_list:
  "(\<And>x. x \<in> set xs \<Longrightarrow> f x = g x) \<Longrightarrow> List.map_filter f xs = List.map_filter g xs"
  by (induction xs) (auto simp: List.map_filter_simps split: option.splits)

lemma report_loop_map_filter:
  "report_loop tol w B_avg eqs report
     = report @ List.map_filter (\<lambda>e. well_failure tol w e (maximum_residual w B_avg e)) eqs"
  by (induction eqs arbitrary: report) (auto simp: List.map_filter_simps split: option.splits)

lemma maximum_residual_loop_not_nan:
  "m \<noteq> NaN \<Longrightarrow> maximum_residual_loop w B_avg eq_idx segs m \<noteq> NaN"
proof (induction segs arbitrary: m)
  case Nil
  then show ?case by simp
next
  case (Cons seg segs)
  have "dgt x m \<Longrightarrow> x \<noteq> NaN" for x
    by (cases x) auto
  with Cons show ?case
    by (auto simp: Let_def)
qed

lemma maximum_residual_not_nan: "\<not> isnan (maximum_residual w B_avg eq_idx)"
  by (simp add: maximum_residual_def isnan_def maximum_residual_loop_not_nan)

lemma dgt_not_nan: "dgt x m \<Longrightarrow> x \<noteq> NaN"
  by (cases x) auto

lemma dgt_bound_grows: "\<not> dgt x m \<Longrightarrow> dgt m' m \<Longrightarrow> m \<noteq> NaN \<Longrightarrow> \<not> dgt x m'"
  by (cases x; cases m; cases m') auto

lemma maximum_residual_loop_bound:
  "m \<noteq> NaN \<Longrightarrow> \<not> dgt x m \<Longrightarrow> \<not> dgt x (maximum_residual_loop w B_avg eq_idx segs m)"
proof (induction segs arbitrary: m)
  case Nil
  then show ?case by simp
next
  case (Cons seg segs)
  have step: "y \<noteq> NaN \<and> \<not> dgt x y" if "y = (if dgt r m then r else m)" for r y
    using that Cons.prems dgt_not_nan [of r m] dgt_bound_grows [of x m r]
    by (cases "dgt r m") auto
  show ?case
    using Cons.IH Cons.prems step by (simp add: Let_def)
qed

lemma dgt_irrefl_or_nan: "\<not> dgt x (if dgt x m then x else m)"
  by (cases x; cases m) auto

lemma maximum_residual_loop_covers:
  assumes "m \<noteq> NaN" and "seg \<in> set segs"
  shows "(eq_idx < numComponents w \<longrightarrow>
            \<not> dgt (dmul (B_avg ! eq_idx) (dabs (residual w seg eq_idx)))
                  (maximum_residual_loop w B_avg eq_idx segs m))
       \<and> (\<not> eq_idx < numComponents w \<and> 0 < seg \<longrightarrow>
            \<not> dgt (dabs (residual w seg eq_idx)) (maximum_residual_loop w B_avg eq_idx segs m))"
  using assms
proof (induction segs arbitrary: m)
  case Nil
  then show ?case by simp
next
  case (Cons s segs)
  have nn: "(if dgt r m then r else m) \<noteq> NaN" for r
    using Cons.prems(1) dgt_not_nan [of r m] by auto
  show ?case
  proof (cases "seg = s")
    case True
    show ?thesis
      using True nn maximum_residual_loop_bound [OF nn dgt_irrefl_or_nan]
      by (simp add: Let_def)
  next
    case False
    with Cons.prems have "seg \<in> set segs" by simp
    from Cons.IH [OF nn this] Cons.IH [OF Cons.prems(1) this] show ?thesis
      by (simp add: Let_def)
  qed
qed

lemma maximum_residual_covers:
  assumes "seg < numberOfSegments w"
  shows "(eq_idx < numComponents w \<longrightarrow>
            \<not> dgt (dmul (B_avg ! eq_idx) (dabs (residual w seg eq_idx))) (maximum_residual w B_avg eq_idx))
       \<and> (\<not> eq_idx < numComponents w \<and> 0 < seg \<longrightarrow>
            \<not> dgt (dabs (residual w seg eq_idx)) (maximum_residual w B_avg eq_idx))"
  unfolding maximum_residual_def
  using maximum_residual_loop_covers [of "Fin 0" seg "[0..<numberOfSegments w]"] assms
  by simp

lemma maximum_residual_loop_attained:
  "(eq_idx < numComponents w \<longrightarrow>
      maximum_residual_loop w B_avg eq_idx segs m
        \<in> set (m # map (\<lambda>seg. dmul (B_avg ! eq_idx) (dabs (residual w seg eq_idx))) segs))
   \<and> (\<not> eq_idx < numComponents w \<longrightarrow>
      maximum_residual_loop w B_avg eq_idx segs m
        \<in> set (m # map (\<lambda>seg. dabs (residual w seg eq_idx)) (filter (\<lambda>seg. 0 < seg) segs)))"
proof (induction segs arbitrary: m)
  case Nil
  show ?case by simp
next
  case (Cons seg segs)
  let ?flux = "dmul (B_avg ! eq_idx) (dabs (residual w seg eq_idx))"
  let ?pres = "dabs (residual w seg eq_idx)"
  show ?case
  proof (cases "eq_idx < numComponents w")
    case True
    then have e: "maximum_residual_loop w B_avg eq_idx (seg # segs) m
                  = maximum_residual_loop w B_avg eq_idx segs (if dgt ?flux m then ?flux else m)"
      by (simp add: Let_def)
    from Cons.IH [of "if dgt ?flux m then ?flux else m"] True show ?thesis
      unfolding e by (cases "dgt ?flux m") auto
  next
    case False
    show ?thesis
    proof (cases "0 < seg")
      case True
      with False have e: "maximum_residual_loop w B_avg eq_idx (seg # segs) m
                  = maximum_residual_loop w B_avg eq_idx segs (if dgt ?pres m then ?pres else m)"
        by (simp add: Let_def)
      from Cons.IH [of "if dgt ?pres m then ?pres else m"] False True show ?thesis
        unfolding e by (cases "dgt ?pres m") auto
    next
      case z: False
      with False have e: "maximum_residual_loop w B_avg eq_idx (seg # segs) m
                  = maximum_residual_loop w B_avg eq_idx segs m"
        by simp
      from Cons.IH [of m] False z show ?thesis
        unfolding e by simp
    qed
  qed
qed

lemma filter_positive_upt: "filter (\<lambda>seg. 0 < seg) [0..<n] = [1..<n]"
  by (induction n) auto

lemma maximum_residual_greatest:
  "greatest_of (maximum_residual w B_avg eq_idx) (residual_values w B_avg eq_idx)"
proof -
  have a: "maximum_residual w B_avg eq_idx \<in> set (Fin 0 # residual_values w B_avg eq_idx)"
    using maximum_residual_loop_attained [of eq_idx w B_avg "[0..<numberOfSegments w]" "Fin 0"]
    by (simp add: maximum_residual_def residual_values_def filter_positive_upt)
  have z: "\<not> dgt (Fin 0) (maximum_residual w B_avg eq_idx)"
    unfolding maximum_residual_def by (rule maximum_residual_loop_bound) simp_all
  have b: "list_all (\<lambda>v. \<not> dgt v (maximum_residual w B_avg eq_idx)) (residual_values w B_avg eq_idx)"
    using maximum_residual_covers [of _ w eq_idx B_avg]
    by (auto simp: residual_values_def list_all_iff)
  from a z b show ?thesis
    by (simp add: greatest_of_def)
qed

lemma dgt_antisym: "\<not> isnan a \<Longrightarrow> \<not> isnan b \<Longrightarrow> \<not> dgt a b \<Longrightarrow> \<not> dgt b a \<Longrightarrow> a = b"
  by (cases a; cases b) (auto simp: isnan_def)

lemma greatest_of_unique:
  assumes "greatest_of m vs" and "greatest_of m' vs" and "list_all (\<lambda>v. \<not> isnan v) vs"
  shows "m = m'"
proof -
  from assms have "m \<in> set (Fin 0 # vs)" "m' \<in> set (Fin 0 # vs)"
      and le: "\<forall>v \<in> set (Fin 0 # vs). \<not> dgt v m" "\<forall>v \<in> set (Fin 0 # vs). \<not> dgt v m'"
      and nn: "\<forall>v \<in> set (Fin 0 # vs). \<not> isnan v"
    by (simp_all add: greatest_of_def list_all_iff isnan_def)
  then show ?thesis
    using dgt_antisym [of m m'] by blast
qed

lemma upt_0_2: "[0..<2] = [0, 1]"
  by (simp add: upt_rec)

lemma upt_1_2: "[Suc 0..<2] = [Suc 0]"
  by (simp add: upt_rec)

text \<open>
  C5 (as amended). When no residual is NaN, the maximum residual of equation \<open>e\<close> is the
  greatest of zero and the absolute residuals of the segments: of all segments, scaled by
  \<open>B_avg[e]\<close>, for a mass equation; of the segments other than the top one, unscaled, for the
  pressure equation. The maximum is classified into at most one severity: for a mass equation
  a maximum above \<^verbatim>\<open>max_residual_allowed\<close>, for the pressure equation an infinite maximum,
  yields \<open>TooLarge\<close>; otherwise a maximum above the tolerance (above the relaxed tolerance when
  relaxed tolerances are in force) yields \<open>Normal\<close>; otherwise nothing is reported. This holds
  when the relaxed tolerances are not below the strict ones. The report of
  \<^verbatim>\<open>getWellConvergence\<close> is the list of these failures in the order of the equations, passed
  through the control-equation check. What is reported when a residual is NaN is left out.
\<close>

theorem getWellConvergence_classification:
  assumes "length B_avg = numComponents w"
      and "dle (tolerance_wells tol) (relaxed_inner_tolerance_flow_ms_well tol)"
      and "dle (tolerance_pressure_ms_wells tol) (relaxed_inner_tolerance_pressure_ms_well tol)"
      and "no_nan_residual w B_avg"
  shows "getWellConvergence check w B_avg tol =
           Inr (check [tolerance_pressure_ms_wells tol, tolerance_pressure_ms_wells tol,
                       tolerance_wells tol, tolerance_wells tol, max_residual_allowed tol]
                  (dabs (residual w 0 (SPres w)))
                  (List.map_filter (\<lambda>e. failure_amended tol w e (maximum_residual w B_avg e))
                     [0..<numWellEq w]))
         \<and> greatest_of (maximum_residual w B_avg eq_idx) (residual_values w B_avg eq_idx)"
proof -
  have "List.map_filter (\<lambda>e. well_failure tol w e (maximum_residual w B_avg e)) [0..<numWellEq w]
        = List.map_filter (\<lambda>e. failure_amended tol w e (maximum_residual w B_avg e)) [0..<numWellEq w]"
    using well_failure_eq_amended [OF assms(2,3) maximum_residual_not_nan]
    by (intro map_filter_cong_list) simp
  with assms(1) maximum_residual_greatest show ?thesis
    by (simp add: getWellConvergence_def report_loop_map_filter)
qed

theorem getWellConvergence_classification_witness:
  "getWellConvergence (\<lambda>t c r. r) well_top [Fin 2] tol_ex
     = Inr [\<lparr>failure_type = MassBalance, severity = Normal, failed_phase = 0, well_name = ''W1''\<rparr>,
            \<lparr>failure_type = Pressure, severity = Normal, failed_phase = - 1, well_name = ''W1''\<rparr>]
   \<and> getWellConvergence (\<lambda>t c r. r) well_top [Fin 2] (tol_ex\<lparr>relax_tolerance := True\<rparr>) = Inr []
   \<and> maximum_residual well_top [Fin 2] 1 = Fin 2000
   \<and> maximum_residual well_top [Fin 2] 0 = Fin (1 / 5)"
proof -
  have a: "length [Fin 2] = numComponents well_top"
    by (simp add: well_top_def)
  have b: "dle (tolerance_wells tol_ex) (relaxed_inner_tolerance_flow_ms_well tol_ex)"
    by (simp add: tol_ex_def dle_def isnan_def)
  have c: "dle (tolerance_pressure_ms_wells tol_ex) (relaxed_inner_tolerance_pressure_ms_well tol_ex)"
    by (simp add: tol_ex_def dle_def isnan_def)
  have b': "dle (tolerance_wells (tol_ex\<lparr>relax_tolerance := True\<rparr>))
                (relaxed_inner_tolerance_flow_ms_well (tol_ex\<lparr>relax_tolerance := True\<rparr>))"
    by (simp add: tol_ex_def dle_def isnan_def)
  have c': "dle (tolerance_pressure_ms_wells (tol_ex\<lparr>relax_tolerance := True\<rparr>))
                (relaxed_inner_tolerance_pressure_ms_well (tol_ex\<lparr>relax_tolerance := True\<rparr>))"
    by (simp add: tol_ex_def dle_def isnan_def)
  have d: "no_nan_residual well_top [Fin 2]"
    by (simp add: no_nan_residual_def residual_values_def well_top_def upt_0_2 upt_1_2 isnan_def)
  note strict = getWellConvergence_classification [OF a b c d, of "\<lambda>t c r. r"]
  note relaxed = getWellConvergence_classification [OF a b' c' d, of "\<lambda>t c r. r" 0]
  have p: "maximum_residual well_top [Fin 2] 1 = Fin 2000"
    using strict [of 1] by (auto simp: greatest_of_def residual_values_def well_top_def upt_1_2)
  have m: "maximum_residual well_top [Fin 2] 0 = Fin (1 / 5)"
    using strict [of 0] by (auto simp: greatest_of_def residual_values_def well_top_def upt_0_2)
  from strict [of 0] relaxed p m show ?thesis
    by (simp add: upt_0_2 well_top_def tol_ex_def failure_amended_def severity_amended_def
        isinf_def List.map_filter_simps)
qed

text \<open>
  The claim as stated fails in three ways. For the pressure equation a finite maximum of
  \<open>1e10\<close>, above \<^verbatim>\<open>max_residual_allowed = 1e7\<close>, is reported as \<open>Normal\<close>, where the claim's
  classification gives \<open>TooLarge\<close>. For a well whose residuals are all NaN nothing is reported,
  where the claim has \<open>NotANumber\<close>: a NaN never replaces the running maximum. With strict
  tolerances in force and a relaxed flow tolerance \<open>0.1\<close> below the strict one \<open>1\<close>, a maximum
  of \<open>0.2\<close> is reported as \<open>Normal\<close>, where the claim's classification reports nothing.
\<close>

theorem getWellConvergence_counterexample:
  "getWellConvergence (\<lambda>t c r. r) well_ex [Fin 2] tol_ex
     = Inr [\<lparr>failure_type = MassBalance, severity = Normal, failed_phase = 0, well_name = ''W1''\<rparr>,
            \<lparr>failure_type = Pressure, severity = Normal, failed_phase = - 1, well_name = ''W1''\<rparr>]
   \<and> maximum_residual well_ex [Fin 2] 1 = Fin 10000000000
   \<and> severity_spec (\<lambda>m. \<not> isinf m \<and> dgt m (max_residual_allowed tol_ex))
        (tolerance_pressure_ms_wells tol_ex) (relaxed_inner_tolerance_pressure_ms_well tol_ex)
        (relax_tolerance tol_ex) (Fin 10000000000) = Some TooLarge
   \<and> getWellConvergence (\<lambda>t c r. r) well_nan [Fin 2] tol_ex = Inr []
   \<and> isnan (dmul (Fin 2) (dabs (residual well_nan 1 0)))
   \<and> isnan (dabs (residual well_nan 1 1))
   \<and> severity_spec (\<lambda>m. \<not> isinf m \<and> dgt m (max_residual_allowed tol_ex))
        (tolerance_pressure_ms_wells tol_ex) (relaxed_inner_tolerance_pressure_ms_well tol_ex)
        (relax_tolerance tol_ex) (dabs (residual well_nan 1 1)) = Some NotANumber
   \<and> well_failure tol_low well_ex 0 (Fin (1 / 5))
        = Some \<lparr>failure_type = MassBalance, severity = Normal, failed_phase = 0, well_name = ''W1''\<rparr>
   \<and> severity_spec (\<lambda>m. \<not> isinf m \<and> dgt m (max_residual_allowed tol_low))
        (tolerance_wells tol_low) (relaxed_inner_tolerance_flow_ms_well tol_low)
        (relax_tolerance tol_low) (Fin (1 / 5)) = None"
  by (simp add: upt_0_2 getWellConvergence_def well_ex_def well_nan_def tol_ex_def tol_low_def
      well_failure_def severity_spec_def maximum_residual_def isnan_def isinf_def)

text \<open>
  C7. For a segment that is a shut valve, \<^verbatim>\<open>assembleICDPressureEq\<close> makes the single
  assembly call \<^verbatim>\<open>assembleTrivialEq(seg, WQTotal.value())\<close>, sets
  \<^verbatim>\<open>pressure_drop_friction[seg]\<close> to zero, and does nothing else: no pressure equation with
  device, hydrostatic or outlet terms is assembled.
\<close>

theorem assembleICDPressureEq_shut_valve:
  assumes "0 < seg" and "seg < int (length (segmentSet w))"
      and "segmentType (segmentSet w ! nat seg) = VALVE"
      and "valve_status (segmentSet w ! nat seg) = SHUT"
      and "seg < int (length (pressure_drop_friction ws))"
  shows "assembleICDPressureEq seg (w, ws) =
           Inr (w\<lparr>linSys := linSys w @ [assembleTrivialEq seg (val (eval_WQTotal w seg))]\<rparr>,
                ws\<lparr>pressure_drop_friction := (pressure_drop_friction ws)[nat seg := 0]\<rparr>)"
  using assms by (simp add: assembleICDPressureEq_def vec_idx_def vec_set_def ebind_def)

theorem assembleICDPressureEq_shut_valve_witness:
  "assembleICDPressureEq 3 (well_valve, segment_state0) =
     Inr (well_valve\<lparr>linSys := [assembleTrivialEq 3 5]\<rparr>,
          segment_state0\<lparr>pressure_drop_friction := [7, 7, 7, 0]\<rparr>)"
proof -
  have "(0::int) < 3" "3 < int (length (segmentSet well_valve))"
      "segmentType (segmentSet well_valve ! nat 3) = VALVE"
      "valve_status (segmentSet well_valve ! nat 3) = SHUT"
      "3 < int (length (pressure_drop_friction segment_state0))"
    by (simp_all add: well_valve_def segment_state0_def)
  from assembleICDPressureEq_shut_valve [OF this] show ?thesis
    by (simp add: well_valve_def segment_state0_def)
qed

section \<open>Properties of the well-group tree\<close>

lemma ebind_eq_Inr:
  "ebind m f = Inr y \<longleftrightarrow> (\<exists>x. m = Inr x \<and> f x = Inr y)"
  by (cases m) (simp_all add: ebind_def)

lemma upt_0_3: "[0..<3] = [0, 1, 2]"
  by (simp add: upt_rec)

lemmas example_defs =
  group_of_two_def producer_def iface0_def prod_spec0_def inj_spec0_def pu3_def wells0_def
  bhp_control_def rates0_def bhp0_def field_group_def group_controlled_def

lemmas tree_defs =
  WellNode_conditionsMet_def group_constraints_def ctrl_violated_def injection_modes_def
  production_modes_def getTarget_prod_def getTarget_inj_def rateByMode_prod_def rateByMode_inj_def
  WellPhasesSummed_add_def WellPhasesSummed0_def add3_def WellNode_applyProdGroupControl_def
  install_group_control_def append_well_controls_def well_controls_iset_def set_current_control_def
  update_ctrls_def prod_control_distr_def WellNode_type_def WellNode_productionGuideRate_def
  individualControl_def vec_idx_def vec_set_def vec_from_def ebind_def Let_def upt_0_3

lemma productionGuideRate_children_sum:
  "productionGuideRate_children children False acc
     = acc + sum_list (map (\<lambda>child. productionGuideRate child False) children)"
  by (induction children arbitrary: acc) simp_all

lemma applyProdGroupControl_children_for_each:
  "applyProdGroupControl_children children control_mode target eff only_group my_guide_rate W
     = for_each_child
         (\<lambda>child. applyProdGroupControl child control_mode
                    (target / eff * productionGuideRate child only_group / my_guide_rate) False)
         children W"
  by (induction children arbitrary: W) (simp_all add: Let_def)

text \<open>
  C2 (as amended). On a group, \<^verbatim>\<open>applyProdGroupControl(mode, target, only_group)\<close> does
  nothing when the production control mode of the group is \<open>NONE\<close>, or when \<open>only_group\<close> is
  true and the mode is not \<open>FLD\<close>. Otherwise, with \<open>G\<close> the sum over the children of
  \<open>guideRate(only_group)\<close>, it does nothing when \<open>G = 0\<close>, and otherwise applies itself to each
  child \<open>c\<close> in order with the target \<open>(target / efficiency) * guideRate_c(only_group) / G\<close> and
  \<open>only_group = false\<close>, and then sets the mode of the group to \<open>FLD\<close>. For \<open>only_group = true\<close>
  this is stated for trees in which \<open>G\<close> equals the sum of the guide rates of all children,
  which is the divisor the code uses.
\<close>

theorem applyProdGroupControl_group:
  assumes "only_group \<Longrightarrow>
             productionGuideRate (WellsGroup g children) False = children_guide_rate children True"
  shows "applyProdGroupControl (WellsGroup g children) control_mode target only_group W =
    (if prod_control_mode (production_specification g) = Prod_NONE
     then Inr (WellsGroup g children, W)
     else if only_group \<and> prod_control_mode (production_specification g) \<noteq> Prod_FLD
     then Inr (WellsGroup g children, W)
     else if children_guide_rate children only_group = 0
     then Inr (WellsGroup g children, W)
     else ebind
            (for_each_child
               (\<lambda>child. applyProdGroupControl child control_mode
                          (target / efficicency_factor g * productionGuideRate child only_group
                             / children_guide_rate children only_group) False)
               children W)
            (\<lambda>(children', W').
               Inr (WellsGroup (g\<lparr>production_specification :=
                      (production_specification g)\<lparr>prod_control_mode := Prod_FLD\<rparr>\<rparr>)
                      children', W')))"
proof -
  have G: "productionGuideRate_children children False 0 = children_guide_rate children only_group"
  proof (cases only_group)
    case True
    with assms show ?thesis by simp
  next
    case False
    then show ?thesis
      by (simp add: productionGuideRate_children_sum children_guide_rate_def)
  qed
  show ?thesis
    by (simp add: G Let_def applyProdGroupControl_children_for_each)
qed

theorem applyProdGroupControl_group_witness:
  "(case applyProdGroupControl field_group Prod_ORAT 100 True wells0 of
      Inl e \<Rightarrow> False
    | Inr (n, W) \<Rightarrow>
        map (\<lambda>w. ctrl_target (last (controls (ctrls w)))) W = [- 50, - 50]
        \<and> map (\<lambda>w. current (ctrls w)) W = [1, 1]
        \<and> (case n of WellsGroup g children \<Rightarrow>
                        prod_control_mode (production_specification g) = Prod_FLD
                    | WellNode g wn \<Rightarrow> False))"
proof -
  have h: "productionGuideRate (WellsGroup g [group_controlled ''P1'' 0, group_controlled ''P2'' 1]) False
             = children_guide_rate [group_controlled ''P1'' 0, group_controlled ''P2'' 1] True" for g
    by (simp add: example_defs children_guide_rate_def WellNode_productionGuideRate_def)
  note e = applyProdGroupControl_group
    [where only_group = True and control_mode = Prod_ORAT and target = 100 and W = wells0, OF h]
  show ?thesis
    unfolding field_group_def e
    by (simp add: example_defs tree_defs children_guide_rate_def invalid_alq_def invalid_vfp_def)
qed

text \<open>
  The claim as stated fails for a group whose production control mode is \<open>NONE\<close>: with
  \<open>only_group = false\<close> and a guide-rate sum of 2 the call changes nothing, where the claim
  has it recurse into the children and set the mode to \<open>FLD\<close>. It also fails for a group under
  \<open>FLD\<close> with \<open>only_group = true\<close>, one well under individual control and one under group
  control, each of guide rate 1: the sum of \<open>guideRate(true)\<close> is 1, which gives the second well
  the whole target 100, and the code installs \<open>-50\<close>.
\<close>

theorem applyProdGroupControl_none_counterexample:
  "applyProdGroupControl (group_of_two Prod_NONE 100) Prod_ORAT 100 False wells0
     = Inr (group_of_two Prod_NONE 100, wells0)
   \<and> children_guide_rate [producer ''P1'' 0, producer ''P2'' 1] False = 2
   \<and> children_guide_rate [producer ''P1'' 0, group_controlled ''P2'' 1] True = 1
   \<and> (case applyProdGroupControl mixed_group Prod_ORAT 100 True wells0 of
         Inl e \<Rightarrow> False
       | Inr (n, W) \<Rightarrow> map (\<lambda>w. ctrl_target (last (controls (ctrls w)))) W = [0, - 50])"
  by (simp add: example_defs mixed_group_def tree_defs children_guide_rate_def invalid_alq_def
      invalid_vfp_def)

lemma WellNode_conditionsMet_true:
  "WellNode_conditionsMet g wn well_bhp res surf s W = Inr (True, s', W') \<Longrightarrow> W' = W"
  by (auto simp: WellNode_conditionsMet_def ebind_def Let_def split: sum.splits option.splits)

lemma group_constraints_true:
  assumes "group_constraints g children agg res surf summed W = Inr (True, summed', n', W')"
  shows "n' = WellsGroup g children \<and> W' = W
       \<and> injection_violation g agg injection_modes = Inr None
       \<and> production_violation g agg production_modes = Inr None"
  using assms
  by (auto simp: group_constraints_def ebind_def
      simp del: applyProdGroupControl.simps applyInjGroupControl.simps getWorstOffending.simps
        shutWell_at.simps
      split: sum.splits option.splits prod.splits Procedure.splits)

lemma injection_violation_none:
  "injection_violation g agg modes = Inr None
     \<Longrightarrow> list_all (\<lambda>mode. \<not> inj_target_exceeded g agg mode) modes"
proof (induction modes)
  case Nil
  show ?case by simp
next
  case (Cons mode modes)
  have "injection_violation g agg modes = Inr None \<and> \<not> inj_target_exceeded g agg mode"
    using Cons.prems
    by (auto simp: inj_target_exceeded_def ebind_def split: sum.splits if_splits)
  with Cons.IH show ?case by simp
qed

lemma production_violation_none:
  "production_violation g agg modes = Inr None
     \<Longrightarrow> list_all (\<lambda>mode. \<not> prod_target_exceeded g agg mode) modes"
proof (induction modes)
  case Nil
  show ?case by simp
next
  case (Cons mode modes)
  have "production_violation g agg modes = Inr None \<and> \<not> prod_target_exceeded g agg mode"
    using Cons.prems
    by (auto simp: prod_target_exceeded_def ebind_def split: sum.splits if_splits)
  with Cons.IH show ?case by simp
qed

lemma group_constraints_summed:
  assumes "group_constraints g children agg res surf summed W = Inr (met, summed', n', W')"
  shows "(\<not> met \<longrightarrow> summed' = summed) \<and> (met \<longrightarrow> summed' = WellPhasesSummed_add summed agg)"
  using assms
  by (auto simp: group_constraints_def ebind_def
      simp del: applyProdGroupControl.simps applyInjGroupControl.simps getWorstOffending.simps
        shutWell_at.simps
      split: sum.splits option.splits prod.splits Procedure.splits)

lemma add3_assoc: "add3 (add3 a b) c = add3 a (add3 b c)"
  by (simp add: add3_def)

lemma add3_zero_right: "length a = 3 \<Longrightarrow> add3 a [0, 0, 0] = a"
  by (cases a; cases "tl a"; cases "tl (tl a)") (auto simp: add3_def)

lemma total_rates_Nil: "total_rates rates [] = [0, 0, 0]"
  by (simp add: total_rates_def)

lemma total_rates_append:
  "total_rates rates (xs @ ys) = add3 (total_rates rates xs) (total_rates rates ys)"
  by (simp add: total_rates_def add3_def)

lemma add3_zero_left_total: "add3 [0, 0, 0] (total_rates rates ws) = total_rates rates ws"
  by (simp add: add3_def total_rates_def)

lemma WellPhasesSummed_add_assoc:
  "WellPhasesSummed_add (WellPhasesSummed_add a b) c = WellPhasesSummed_add a (WellPhasesSummed_add b c)"
  by (simp add: WellPhasesSummed_add_def add3_assoc)

lemma three_phases_add: "three_phases (WellPhasesSummed_add a b)"
  by (simp add: three_phases_def WellPhasesSummed_add_def add3_def)

lemma three_phases_zero: "three_phases WellPhasesSummed0"
  by (simp add: three_phases_def WellPhasesSummed0_def)

lemma aggregated_rate_Nil: "aggregated_rate res surf W [] = WellPhasesSummed0"
  by (simp add: aggregated_rate_def WellPhasesSummed0_def total_rates_Nil)

lemma aggregated_rate_Cons:
  "aggregated_rate res surf W (n # ns)
     = WellPhasesSummed_add (aggregated_rate res surf W [n]) (aggregated_rate res surf W ns)"
  by (simp add: aggregated_rate_def Let_def WellPhasesSummed_add_def total_rates_append)

lemma aggregated_rate_group:
  "aggregated_rate res surf W [WellsGroup g children] = aggregated_rate res surf W children"
  by (simp add: aggregated_rate_def)

lemma WellPhasesSummed_add_zero_right:
  "three_phases a \<Longrightarrow> WellPhasesSummed_add a WellPhasesSummed0 = a"
  by (simp add: three_phases_def WellPhasesSummed_add_def WellPhasesSummed0_def add3_zero_right)

lemma WellPhasesSummed_add_zero_left:
  "WellPhasesSummed_add WellPhasesSummed0 (aggregated_rate res surf W ns) = aggregated_rate res surf W ns"
  by (simp add: WellPhasesSummed_add_def WellPhasesSummed0_def aggregated_rate_def Let_def
      add3_zero_left_total)

lemma upt_from_4: "4 \<le> np \<Longrightarrow> [0..<np] = 0 # 1 # 2 # 3 # [4..<np]"
  by (simp add: upt_conv_Cons eval_nat_numeral)

lemma report_rates_zero:
  assumes "report_rates injector base res surf [0..<np] WellPhasesSummed0 = Inr s'"
  shows "s' = (if injector
               then \<lparr>res_inj_rates = map (\<lambda>p. if p < np then res ! nat (base + int p) else 0) [0, 1, 2],
                     res_prod_rates = [0, 0, 0],
                     surf_inj_rates = map (\<lambda>p. if p < np then surf ! nat (base + int p) else 0) [0, 1, 2],
                     surf_prod_rates = [0, 0, 0]\<rparr>
               else \<lparr>res_inj_rates = [0, 0, 0],
                     res_prod_rates = map (\<lambda>p. if p < np then res ! nat (base + int p) else 0) [0, 1, 2],
                     surf_inj_rates = [0, 0, 0],
                     surf_prod_rates = map (\<lambda>p. if p < np then surf ! nat (base + int p) else 0) [0, 1, 2]\<rparr>)"
proof -
  consider "np = 0" | "np = 1" | "np = 2" | "np = 3" | "4 \<le> np"
    by arith
  then show ?thesis
  proof cases
    case 1
    with assms show ?thesis
      by (simp add: WellPhasesSummed0_def)
  next
    case 2
    with assms show ?thesis
      by (auto simp: WellPhasesSummed0_def ebind_def vec_idx_def vec_set_def
          split: if_splits)
  next
    case 3
    have u: "[0..<2] = [0, 1]"
      by (simp add: upt_rec)
    from assms show ?thesis
      unfolding 3 u
      by (auto simp: WellPhasesSummed0_def ebind_def vec_idx_def vec_set_def nat_add_distrib
          split: if_splits)
  next
    case 4
    from assms show ?thesis
      unfolding 4 upt_0_3
      by (auto simp: WellPhasesSummed0_def ebind_def vec_idx_def vec_set_def nat_add_distrib
          split: if_splits)
  next
    case 5
    from assms show ?thesis
      unfolding upt_from_4 [OF 5]
      by (auto simp: WellPhasesSummed0_def ebind_def vec_idx_def vec_set_def
          split: if_splits)
  qed
qed


lemma sum_rates_zero: "sum_rates [0, 0, 0] phases t = Inr r \<Longrightarrow> r = t"
  by (induction phases arbitrary: t) (auto simp: ebind_def vec_idx_def nth_Cons' split: if_splits)

lemma zero_rate_prod:
  "rateByMode_prod pu [0, 0, 0] [0, 0, 0] mode = Inr rate \<Longrightarrow> rate = 0"
  by (cases mode) (auto simp: rateByMode_prod_def ebind_def vec_idx_def nth_Cons'
      split: if_splits dest: sum_rates_zero)

lemma zero_rate_inj:
  "rateByMode_inj pu [0, 0, 0] [0, 0, 0] mode = Inr rate \<Longrightarrow> rate = 0"
  by (cases mode) (auto simp: rateByMode_inj_def dest: sum_rates_zero)

lemma no_target_exceeded_well: "no_target_exceeded res surf W (WellNode g wn)"
  by (auto simp: no_target_exceeded_def interface_of_def children_of_def aggregated_rate_Nil
      WellPhasesSummed0_def list_all_iff inj_target_exceeded_def prod_target_exceeded_def
      split: sum.splits dest: zero_rate_prod zero_rate_inj)

lemma WellNode_conditionsMet_rates:
  assumes "WellNode_conditionsMet g wn well_bhp res surf WellPhasesSummed0 W = Inr (met, s', W')"
  shows "s' = aggregated_rate res surf W [WellNode g wn]"
proof -
  from assms obtain wl s where
      w: "vec_idx W (self_index wn) = Inr wl"
    and r: "report_rates (well_type wl = INJECTOR) (int (num_phases (phase_usage g)) * self_index wn)
              res surf [0..<num_phases (phase_usage g)] WellPhasesSummed0 = Inr s"
    and e: "s' = s"
    by (auto simp: WellNode_conditionsMet_def Let_def ebind_def split: sum.splits option.splits)
  from w have wl: "wl = W ! nat (self_index wn)"
    by (auto simp: vec_idx_def split: if_splits)
  from report_rates_zero [OF r] e wl show ?thesis
    by (simp add: aggregated_rate_def is_injector_def total_rates_def well_phase_rate_def)
qed

lemma conditionsMet_true_invariant:
  "conditionsMet n well_bhp res surf s W = Inr (True, s', n', W')
     \<Longrightarrow> n' = n \<and> W' = W \<and> list_all (no_target_exceeded res surf W) (nodes_of n)
       \<and> (s = WellPhasesSummed0 \<longrightarrow> s' = aggregated_rate res surf W [n])"
  "conditionsMet_children children well_bhp res surf acc W = Inr (True, acc', children', W')
     \<Longrightarrow> children' = children \<and> W' = W
       \<and> list_all (\<lambda>child. list_all (no_target_exceeded res surf W) (nodes_of child)) children
       \<and> (three_phases acc
            \<longrightarrow> acc' = WellPhasesSummed_add acc (aggregated_rate res surf W children))"
proof (induction n well_bhp res surf s W and children well_bhp res surf acc W
       arbitrary: s' n' W' and acc' children' W'
       rule: conditionsMet_conditionsMet_children.induct)
  case (1 g wn well_bhp res surf summed_phases W)
  from "1.prems" obtain s1 W1 where
      c: "WellNode_conditionsMet g wn well_bhp res surf summed_phases W = Inr (True, s1, W1)"
    and e: "s' = s1" "n' = WellNode g wn" "W' = W1"
    by (auto simp: ebind_def split: sum.splits)
  from WellNode_conditionsMet_true [OF c] have w: "W1 = W" .
  have "summed_phases = WellPhasesSummed0 \<longrightarrow> s1 = aggregated_rate res surf W [WellNode g wn]"
    using c WellNode_conditionsMet_rates by blast
  with e w no_target_exceeded_well show ?case
    by simp
next
  case (2 g children well_bhp res surf summed_phases W)
  from "2.prems" obtain met agg children1 W1 where
      c: "conditionsMet_children children well_bhp res surf WellPhasesSummed0 W
            = Inr (met, agg, children1, W1)"
    and r: "(if \<not> met then Inr (False, summed_phases, WellsGroup g children1, W1)
             else group_constraints g children1 agg res surf summed_phases W1)
            = Inr (True, s', n', W')"
    by (auto simp: ebind_def split: sum.splits)
  from r have met: met
    by (cases met) simp_all
  with r have gc: "group_constraints g children1 agg res surf summed_phases W1 = Inr (True, s', n', W')"
    by simp
  from "2.IH" [OF c [unfolded met [THEN eqTrueI]]] three_phases_zero have
      ih: "children1 = children" "W1 = W"
        "list_all (\<lambda>child. list_all (no_target_exceeded res surf W) (nodes_of child)) children"
        "agg = WellPhasesSummed_add WellPhasesSummed0 (aggregated_rate res surf W children)"
    by simp_all
  from ih(4) have agg: "agg = aggregated_rate res surf W children"
    by (simp add: WellPhasesSummed_add_zero_left)
  from group_constraints_true [OF gc] have
      g1: "n' = WellsGroup g children1" "W' = W1"
      and iv: "injection_violation g agg injection_modes = Inr None"
      and pv: "production_violation g agg production_modes = Inr None"
    by simp_all
  from group_constraints_summed [OF gc] have s': "s' = WellPhasesSummed_add summed_phases agg"
    by simp
  have self: "no_target_exceeded res surf W (WellsGroup g children)"
    using agg injection_violation_none [OF iv] production_violation_none [OF pv]
    by (simp add: no_target_exceeded_def interface_of_def children_of_def)
  have rest: "list_all (no_target_exceeded res surf W) (concat (map nodes_of children))"
    using ih(3) by (auto simp: list_all_iff)
  have "summed_phases = WellPhasesSummed0 \<longrightarrow> s' = aggregated_rate res surf W [WellsGroup g children]"
    using s' agg by (simp add: WellPhasesSummed_add_zero_left aggregated_rate_group)
  with self rest g1 ih(1,2) show ?case
    by simp
next
  case (3 well_bhp res surf child_phases_summed W)
  then show ?case
    by (simp add: aggregated_rate_Nil WellPhasesSummed_add_zero_right)
next
  case (4 child children well_bhp res surf child_phases_summed W)
  from "4.prems" obtain met cur child1 W1 where
      c: "conditionsMet child well_bhp res surf WellPhasesSummed0 W = Inr (met, cur, child1, W1)"
    and r: "(if \<not> met then Inr (False, child_phases_summed, child1 # children, W1)
             else ebind (conditionsMet_children children well_bhp res surf
                           (WellPhasesSummed_add child_phases_summed cur) W1)
                    (\<lambda>(met', s, children', W''). Inr (met', s, child1 # children', W'')))
            = Inr (True, acc', children', W')"
    by (auto simp: ebind_def split: sum.splits)
  from r have met: met
    by (cases met) simp_all
  from "4.IH"(1) [OF c [unfolded met [THEN eqTrueI]]] have
      ih1: "child1 = child" "W1 = W"
        "list_all (no_target_exceeded res surf W) (nodes_of child)"
        "cur = aggregated_rate res surf W [child]"
    by simp_all
  from r met obtain s2 children2 W2 where
      c2: "conditionsMet_children children well_bhp res surf
             (WellPhasesSummed_add child_phases_summed cur) W1 = Inr (True, s2, children2, W2)"
    and e: "children' = child1 # children2" "W' = W2" "acc' = s2"
    by (auto simp: ebind_def split: sum.splits)
  from met have nn: "\<not> \<not> met"
    by simp
  from "4.IH"(2) [OF nn c2] three_phases_add have
      ih2: "children2 = children" "W2 = W1"
        "list_all (\<lambda>child. list_all (no_target_exceeded res surf W1) (nodes_of child)) children"
        "s2 = WellPhasesSummed_add (WellPhasesSummed_add child_phases_summed cur)
                (aggregated_rate res surf W1 children)"
    by simp_all
  have "acc' = WellPhasesSummed_add child_phases_summed (aggregated_rate res surf W (child # children))"
    using e(3) ih2(4) ih1(2,4)
    by (simp add: WellPhasesSummed_add_assoc aggregated_rate_Cons [of res surf W child children])
  with ih1 ih2 e show ?case
    by simp
qed

text \<open>
  C3. If \<^verbatim>\<open>conditionsMet\<close> returns true at the root, it has changed neither the tree nor
  the well controls, and at every node of the tree no injection mode among \<open>RATE, RESV\<close>
  and no production mode among \<open>ORAT, WRAT, GRAT, LRAT, RESV\<close>, other than the active mode
  of the node, has a target that is set (not negative) and exceeded by the aggregated rate of
  the children for that mode (in absolute value for production). The aggregated rate of the
  children is taken from the two rate vectors: the rates of the wells below the children,
  summed by phase, the injectors apart from the other wells.
\<close>

theorem conditionsMet_no_target_exceeded:
  assumes "conditionsMet tree well_bhp res surf summed_phases W = Inr (True, summed_phases', tree', W')"
  shows "tree' = tree \<and> W' = W
       \<and> list_all (no_target_exceeded res surf W) (nodes_of tree)"
  using conditionsMet_true_invariant(1) [OF assms] by simp

theorem conditionsMet_no_target_exceeded_witness:
  "list_all (no_target_exceeded rates0 rates0 wells0) (nodes_of (group_of_two Prod_NONE 200))
   \<and> surf_prod_rates (aggregated_rate rates0 rates0 wells0 (children_of (group_of_two Prod_NONE 200)))
       = [0, - 110, 0]"
proof -
  have "\<exists>s' n' W'. conditionsMet (group_of_two Prod_NONE 200) bhp0 rates0 rates0 summed1 wells0
                      = Inr (True, s', n', W')"
    by (simp add: example_defs tree_defs)
  then obtain s' n' W' where
      e: "conditionsMet (group_of_two Prod_NONE 200) bhp0 rates0 rates0 summed1 wells0
            = Inr (True, s', n', W')"
    by blast
  have "surf_prod_rates (aggregated_rate rates0 rates0 wells0 (children_of (group_of_two Prod_NONE 200)))
       = [0, - 110, 0]"
    by (simp add: example_defs children_of_def aggregated_rate_def is_injector_def total_rates_def
        well_phase_rate_def)
  with conditionsMet_no_target_exceeded [OF e] show ?thesis
    by simp
qed

text \<open>With the oil target 100 in place of 200 the aggregated oil rate \<open>-110\<close> of the two
  producers exceeds it: \<^verbatim>\<open>conditionsMet\<close> returns false.\<close>

lemma conditionsMet_target_exceeded_example:
  "(case conditionsMet (group_of_two Prod_NONE 100) bhp0 rates0 rates0 summed1 wells0 of
      Inl e \<Rightarrow> False | Inr (met, s, n, W) \<Rightarrow> \<not> met)
   \<and> \<not> no_target_exceeded rates0 rates0 wells0 (group_of_two Prod_NONE 100)"
  by (simp add: example_defs tree_defs no_target_exceeded_def interface_of_def children_of_def
      aggregated_rate_def is_injector_def total_rates_def well_phase_rate_def
      prod_target_exceeded_def inj_target_exceeded_def invalid_alq_def invalid_vfp_def)


text \<open>
  C10. When \<^verbatim>\<open>WellsGroup::conditionsMet\<close> returns false, \<^verbatim>\<open>summed_phases\<close> is as it was
  passed in; when it returns true, \<^verbatim>\<open>summed_phases\<close> is the sum of what was passed in and
  the totals of the children.
\<close>

theorem conditionsMet_summed_phases:
  assumes "conditionsMet (WellsGroup g children) well_bhp res surf summed_phases W
             = Inr (met, summed_phases', n', W')"
  shows "(\<not> met \<longrightarrow> summed_phases' = summed_phases)
       \<and> (met \<longrightarrow> (\<exists>agg children' W1.
             conditionsMet_children children well_bhp res surf WellPhasesSummed0 W
               = Inr (True, agg, children', W1)
             \<and> summed_phases' = WellPhasesSummed_add summed_phases agg))"
proof -
  from assms obtain m agg children' W1 where
      c: "conditionsMet_children children well_bhp res surf WellPhasesSummed0 W
            = Inr (m, agg, children', W1)"
    and r: "(if \<not> m then Inr (False, summed_phases, WellsGroup g children', W1)
             else group_constraints g children' agg res surf summed_phases W1)
            = Inr (met, summed_phases', n', W')"
    by (auto simp: ebind_eq_Inr)
  show ?thesis
  proof (cases m)
    case False
    with r show ?thesis by simp
  next
    case True
    with r have "group_constraints g children' agg res surf summed_phases W1
                   = Inr (met, summed_phases', n', W')"
      by simp
    from group_constraints_summed [OF this] c True show ?thesis
      by auto
  qed
qed

theorem conditionsMet_summed_phases_witness:
  "(\<exists>n' W'. conditionsMet (group_of_two Prod_NONE 100) bhp0 rates0 rates0 summed1 wells0
               = Inr (False, summed1, n', W'))"
proof -
  have "\<exists>s' n' W'. conditionsMet (group_of_two Prod_NONE 100) bhp0 rates0 rates0 summed1 wells0
                      = Inr (False, s', n', W')"
    by (simp add: example_defs tree_defs)
  then obtain s' n' W' where
      e: "conditionsMet (group_of_two Prod_NONE 100) bhp0 rates0 rates0 summed1 wells0
            = Inr (False, s', n', W')"
    by blast
  from conditionsMet_summed_phases [OF e [unfolded group_of_two_def]] have "s' = summed1"
    by simp
  with e show ?thesis
    by blast
qed

text \<open>
  C6. \<^verbatim>\<open>getWorstOffending\<close> should return the well whose rate has the largest absolute
  value. Production rates are negative; for two producers with oil rates \<open>-80\<close> and \<open>-30\<close>
  the comparison \<^verbatim>\<open>max.second < child_max.second\<close> selects the second well, with rate \<open>-30\<close>.
\<close>

theorem getWorstOffending_negative_rates:
  "getWorstOffending (group_of_two Prod_NONE 100) rates0 rates0 Prod_ORAT = Inr (Some [1], - 30)
   \<and> WellNode_getWorstOffending (iface0 ''P1'')
        \<lparr>self_index = 0, group_control_index = - 1, shut_well = True\<rparr> rates0 rates0 Prod_ORAT
       = Inr (- 80)"
  by (simp add: group_of_two_def producer_def WellNode_getWorstOffending_def iface0_def pu3_def
      rates0_def vec_from_def rateByMode_prod_def vec_idx_def ebind_def)

end
